theory Spec2Isabelle
  imports Main
begin

section \<open>Data model\<close>

text \<open>
  The two applications (\<^verbatim>\<open>backend/app.py\<close>, built on a query builder, and
  \<^verbatim>\<open>tortoise/app.py\<close>, built on an object-relational mapper) use Pydantic models of
  the same names; they are taken from \<^verbatim>\<open>tortoise/models.py\<close>, the module
  \<^verbatim>\<open>backend/models.py\<close> not being among the sources. Record fields keep the names of
  the source; \<^verbatim>\<open>id\<close> is written \<open>ident\<close>, and the fields of a comment carry the
  prefix \<open>comment_\<close> where a post has a field of the same name.

  A Python \<^verbatim>\<open>str\<close> is the list of its code points, so that its length is the number
  that \<^verbatim>\<open>len\<close> gives.
\<close>

type_synonym str = "nat list"

text \<open>
  A \<^verbatim>\<open>datetime\<close> shows a calendar date and a time of day, here the number of
  microseconds from a fixed origin to what it shows, and either has no time zone (it is
  naive, \<open>utcoffset = None\<close>) or carries the offset of its zone from UTC, in
  microseconds. Two values with different fields are different values: they print
  differently in a response.
\<close>

record datetime =
  wall_clock :: int
  utcoffset :: "int option"

definition naive :: "int \<Rightarrow> datetime" where
  "naive w = \<lparr>wall_clock = w, utcoffset = None\<rparr>"

definition utc :: "int \<Rightarrow> datetime" where
  "utc w = \<lparr>wall_clock = w, utcoffset = Some 0\<rparr>"

text \<open>\<^verbatim>\<open>CommentBase\<close> (and \<^verbatim>\<open>CommentCreate\<close>, which adds nothing), \<^verbatim>\<open>CommentDB\<close>.\<close>

record CommentBase =
  post_id :: int
  comment_publication_date :: datetime
  comment_content :: str

record CommentDB = CommentBase +
  comment_ident :: int

text \<open>\<^verbatim>\<open>PostBase\<close> (and \<^verbatim>\<open>PostCreate\<close>), \<^verbatim>\<open>PostDB\<close>, \<^verbatim>\<open>PostPublic\<close>.\<close>

record PostBase =
  title :: str
  content :: str
  publication_date :: datetime

record PostDB = PostBase +
  ident :: int

record PostPublic = PostDB +
  comments :: "CommentDB list"

text \<open>
  \<^verbatim>\<open>PostPartialUpdate\<close>: both fields are \<^verbatim>\<open>Optional[str] = None\<close>, and the handlers
  read the model with \<^verbatim>\<open>dict(exclude_unset=True)\<close>, which keeps the fields the request
  body named. So a field is either absent from the body (\<open>Unset\<close>) or was given, as
  \<^verbatim>\<open>null\<close> (\<open>Given None\<close>) or as a string.
\<close>

datatype 'a body_field = Unset | Given "'a option"

record PostPartialUpdate =
  update_title :: "str body_field"
  update_content :: "str body_field"

text \<open>
  A request body for \<^verbatim>\<open>PostBase\<close> or \<^verbatim>\<open>CommentBase\<close> may leave \<^verbatim>\<open>publication_date\<close> out;
  \<^verbatim>\<open>Field(default_factory=datetime.now)\<close> then fills in the local time at which the
  model is built, a naive value; the argument \<open>now\<close> is what the clock shows then. A
  date that the body gives is naive or has an offset, as it was written.
\<close>

definition PostCreate :: "int \<Rightarrow> str \<Rightarrow> str \<Rightarrow> datetime option \<Rightarrow> PostBase" where
  "PostCreate now t c d =
     \<lparr>title = t, content = c,
      publication_date = (case d of None \<Rightarrow> naive now | Some d' \<Rightarrow> d')\<rparr>"

definition CommentCreate :: "int \<Rightarrow> int \<Rightarrow> str \<Rightarrow> datetime option \<Rightarrow> CommentBase" where
  "CommentCreate now p c d =
     \<lparr>post_id = p,
      comment_publication_date = (case d of None \<Rightarrow> naive now | Some d' \<Rightarrow> d'),
      comment_content = c\<rparr>"

text \<open>Building one model from the fields of another (\<^verbatim>\<open>PostDB(**row)\<close>, \<^verbatim>\<open>from_orm\<close>).\<close>

definition PostDB_of :: "'a PostDB_scheme \<Rightarrow> PostDB" where
  "PostDB_of p =
     \<lparr>title = title p, content = content p, publication_date = publication_date p,
      ident = ident p\<rparr>"

definition PostPublic_of :: "'a PostDB_scheme \<Rightarrow> CommentDB list \<Rightarrow> PostPublic" where
  "PostPublic_of p cs =
     \<lparr>title = title p, content = content p, publication_date = publication_date p,
      ident = ident p, comments = cs\<rparr>"

section \<open>Errors and HTTP status codes\<close>

text \<open>
  The exceptions the handlers raise or let through. \<^verbatim>\<open>HTTPException\<close> carries the status
  code and the detail it was built with (\<open>None\<close> when the source passes none).
  \<^verbatim>\<open>OverflowError\<close> and \<^verbatim>\<open>OperationalError\<close> come from the SQLite driver,
  \<^verbatim>\<open>ValidationError\<close> from the validators of the mapper's fields.
\<close>

datatype exn =
    HTTPException nat "string option"
  | RequestValidationError
  | DoesNotExist
  | MultipleObjectsReturned
  | IntegrityError
  | ValueError
  | TypeError
  | OverflowError
  | OperationalError
  | ValidationError

abbreviation HTTP_200_OK :: nat where "HTTP_200_OK \<equiv> 200"
abbreviation HTTP_201_CREATED :: nat where "HTTP_201_CREATED \<equiv> 201"
abbreviation HTTP_204_NO_CONTENT :: nat where "HTTP_204_NO_CONTENT \<equiv> 204"
abbreviation HTTP_400_BAD_REQUEST :: nat where "HTTP_400_BAD_REQUEST \<equiv> 400"
abbreviation HTTP_404_NOT_FOUND :: nat where "HTTP_404_NOT_FOUND \<equiv> 404"

section \<open>Pagination\<close>

text \<open>
  \<^verbatim>\<open>def pagination(skip: int = Query(0, ge=0), limit: int = Query(10, ge=0))\<close>:
  the body is the same in both applications. \<open>Query\<close> is the boundary: a missing
  parameter takes the default, a value below the bound \<^verbatim>\<open>ge\<close> is refused before the
  function runs.
\<close>

definition backend_pagination :: "int \<Rightarrow> int \<Rightarrow> int \<times> int" where
  "backend_pagination skip limit = (let capped_limit = min 100 limit in (skip, capped_limit))"

definition tortoise_pagination :: "int \<Rightarrow> int \<Rightarrow> int \<times> int" where
  "tortoise_pagination skip limit = (let capped_limit = min 100 limit in (skip, capped_limit))"

definition Query :: "int \<Rightarrow> int \<Rightarrow> int option \<Rightarrow> exn + int" where
  "Query dflt ge v =
     (case v of None \<Rightarrow> Inr dflt
      | Some x \<Rightarrow> if ge \<le> x then Inr x else Inl RequestValidationError)"

definition pagination_dependency ::
  "(int \<Rightarrow> int \<Rightarrow> int \<times> int) \<Rightarrow> int option \<Rightarrow> int option \<Rightarrow> exn + int \<times> int" where
  "pagination_dependency f skip limit =
     (case Query 0 0 skip of Inl e \<Rightarrow> Inl e
      | Inr s \<Rightarrow> (case Query 10 0 limit of Inl e \<Rightarrow> Inl e | Inr l \<Rightarrow> Inr (f s l)))"

section \<open>The stored state\<close>

text \<open>
  Both applications keep two tables, \<^verbatim>\<open>posts\<close> and \<^verbatim>\<open>comments\<close>, in an SQLite file
  (\<^verbatim>\<open>sqlite:///backend.db\<close> in \<^verbatim>\<open>backend/database.py\<close>, \<^verbatim>\<open>sqlite://tortoise_databse.db\<close>
  in \<^verbatim>\<open>tortoise/app.py\<close>); a row of either has the fields of \<^verbatim>\<open>PostDB\<close> or
  \<^verbatim>\<open>CommentDB\<close>. Rows are kept in insertion order. Each table has a sequence, the
  largest identifier handed out so far.
\<close>

record Database =
  posts_table :: "PostDB list"
  comments_table :: "CommentDB list"
  posts_sequence :: int
  comments_sequence :: int

definition empty_database :: Database where
  "empty_database =
     \<lparr>posts_table = [], comments_table = [], posts_sequence = 0, comments_sequence = 0\<rparr>"

text \<open>An integer of SQLite is a signed integer of 64 bits.\<close>

definition fits_int64 :: "int \<Rightarrow> bool" where
  "fits_int64 i \<longleftrightarrow> - (2 ^ 63) \<le> i \<and> i < 2 ^ 63"

text \<open>
  Modelled from the spec: the table declarations of the query-builder application
  (\<^verbatim>\<open>backend/models.py\<close>) are not among the sources. The spec gives the identifier of
  a row as an integer "unique, assigned by storage on creation", whose values "are
  never reused"; the mapped classes of the other application declare it
  \<^verbatim>\<open>IntField(pk=True, generated=True)\<close>. So an insertion takes the next identifier
  of the table's sequence, and returns it. The store has no identifier beyond its
  largest integer: an insertion that would need one is refused.
\<close>

definition insert_post :: "PostBase \<Rightarrow> Database \<Rightarrow> exn + int \<times> Database" where
  "insert_post vals db =
     (let new_id = posts_sequence db + 1;
          row = \<lparr>title = title vals, content = content vals,
                 publication_date = publication_date vals, ident = new_id\<rparr>
      in if fits_int64 new_id
         then Inr (new_id, db\<lparr>posts_table := posts_table db @ [row], posts_sequence := new_id\<rparr>)
         else Inl OperationalError)"

definition insert_comment :: "CommentBase \<Rightarrow> Database \<Rightarrow> exn + int \<times> Database" where
  "insert_comment vals db =
     (let new_id = comments_sequence db + 1;
          row = \<lparr>post_id = post_id vals,
                 comment_publication_date = comment_publication_date vals,
                 comment_content = comment_content vals, comment_ident = new_id\<rparr>
      in if fits_int64 new_id
         then Inr (new_id, db\<lparr>comments_table := comments_table db @ [row],
                              comments_sequence := new_id\<rparr>)
         else Inl OperationalError)"

text \<open>
  What every handler preserves: identifiers are unique within a table, each is an
  integer of the store and none exceeds its table's sequence, and no comment names a
  post identifier that was never handed out.
\<close>

definition db_inv :: "Database \<Rightarrow> bool" where
  "db_inv db \<longleftrightarrow>
     distinct (map ident (posts_table db))
     \<and> (\<forall>p \<in> set (posts_table db). ident p \<le> posts_sequence db \<and> fits_int64 (ident p))
     \<and> distinct (map comment_ident (comments_table db))
     \<and> (\<forall>c \<in> set (comments_table db).
           comment_ident c \<le> comments_sequence db \<and> fits_int64 (comment_ident c))
     \<and> (\<forall>c \<in> set (comments_table db). post_id c \<le> posts_sequence db)"

definition post_exists :: "int \<Rightarrow> Database \<Rightarrow> bool" where
  "post_exists i db \<longleftrightarrow> i \<in> ident ` set (posts_table db)"

section \<open>The query-builder application (\<^verbatim>\<open>backend/app.py\<close>)\<close>

text \<open>
  \<^verbatim>\<open>database.fetch_one\<close> gives the first row of a selection or \<^verbatim>\<open>None\<close>,
  \<^verbatim>\<open>database.fetch_all\<close> all of its rows. The selections of this application compare
  one integer column with a Python integer, which the statement binds as a parameter:
  the SQLite driver raises \<^verbatim>\<open>OverflowError\<close> for an integer that is not one of the
  store.
\<close>

definition fetch_one :: "('r \<Rightarrow> int) \<Rightarrow> int \<Rightarrow> 'r list \<Rightarrow> exn + 'r option" where
  "fetch_one column v rows =
     (if fits_int64 v then Inr (find (\<lambda>r. column r = v) rows) else Inl OverflowError)"

definition fetch_all :: "('r \<Rightarrow> int) \<Rightarrow> int \<Rightarrow> 'r list \<Rightarrow> exn + 'r list" where
  "fetch_all column v rows =
     (if fits_int64 v then Inr (filter (\<lambda>r. column r = v) rows) else Inl OverflowError)"

text \<open>
  Modelled from the spec: the declarations of the tables are missing; for the spec
  \<^verbatim>\<open>publication_date\<close> is a "timestamp". The date-time column of the query builder
  writes the calendar date and the time of day that a value shows and reads them back
  as a naive value: SQLite has no time zones, and the offset of a value is not stored.
\<close>

definition without_tzinfo :: "datetime \<Rightarrow> datetime" where
  "without_tzinfo d = \<lparr>wall_clock = wall_clock d, utcoffset = None\<rparr>"

definition posts_row :: "PostDB \<Rightarrow> PostDB" where
  "posts_row r = r\<lparr>publication_date := without_tzinfo (publication_date r)\<rparr>"

definition comments_row :: "CommentDB \<Rightarrow> CommentDB" where
  "comments_row c =
     c\<lparr>comment_publication_date := without_tzinfo (comment_publication_date c)\<rparr>"

definition posts_insert :: "PostBase \<Rightarrow> Database \<Rightarrow> exn + int \<times> Database" where
  "posts_insert vals db =
     insert_post (vals\<lparr>publication_date := without_tzinfo (publication_date vals)\<rparr>) db"

definition comments_insert :: "CommentBase \<Rightarrow> Database \<Rightarrow> exn + int \<times> Database" where
  "comments_insert vals db =
     insert_comment
       (vals\<lparr>comment_publication_date := without_tzinfo (comment_publication_date vals)\<rparr>) db"

definition backend_get_post_or_404 :: "int \<Rightarrow> Database \<Rightarrow> exn + PostPublic" where
  "backend_get_post_or_404 i db =
     (case fetch_one ident i (posts_table db) of
        Inl e \<Rightarrow> Inl e
      | Inr None \<Rightarrow> Inl (HTTPException HTTP_404_NOT_FOUND None)
      | Inr (Some raw_post) \<Rightarrow>
          (case fetch_all post_id i (comments_table db) of
             Inl e \<Rightarrow> Inl e
           | Inr raw_comments \<Rightarrow>
               (let comments_list = map comments_row raw_comments
                in Inr (PostPublic_of (posts_row raw_post) comments_list))))"

definition backend_get_posts :: "PostPublic \<Rightarrow> PostPublic" where
  "backend_get_posts post = post"

definition backend_create_post :: "PostBase \<Rightarrow> Database \<Rightarrow> (exn + PostPublic) \<times> Database" where
  "backend_create_post post db =
     (case posts_insert post db of
        Inl e \<Rightarrow> (Inl e, db)
      | Inr (new_post_id, db') \<Rightarrow> (backend_get_post_or_404 new_post_id db', db'))"

text \<open>The value of a column after an update: the string the body gives, if it gives one.\<close>

definition set_column :: "str body_field \<Rightarrow> str \<Rightarrow> str" where
  "set_column f old = (case f of Given (Some v) \<Rightarrow> v | _ \<Rightarrow> old)"

text \<open>
  Modelled from the spec: the declaration of the \<^verbatim>\<open>posts\<close> table is missing; for the
  spec \<^verbatim>\<open>title\<close> and \<^verbatim>\<open>content\<close> are "string, required", as the mapped classes of
  the other application declare them (\<^verbatim>\<open>null=False\<close>), so the columns refuse
  \<^verbatim>\<open>null\<close>. SQLite does not bound the length of a string.

  \<^verbatim>\<open>posts.update().where(posts.c.id == id).values(d)\<close> for the dictionary \<open>d\<close> of the
  fields the request named is one statement, which changes every row it selects or,
  when it would store \<^verbatim>\<open>null\<close> in a selected row, none at all.
  When the request names no field, \<open>d\<close> is empty. What the query builder sends to the
  store for a statement with no value is decided outside the sources, so the outcome
  is the argument \<open>no_values\<close>: \<open>None\<close> for a statement that changes nothing,
  \<open>Some e\<close> for one that the store refuses with the exception \<open>e\<close>. The identifier
  of the statement is that of a post which was read from the store.
\<close>

definition posts_update ::
  "exn option \<Rightarrow> int \<Rightarrow> PostPartialUpdate \<Rightarrow> Database \<Rightarrow> exn + Database" where
  "posts_update no_values i vals db =
     (if update_title vals = Unset \<and> update_content vals = Unset
      then (case no_values of None \<Rightarrow> Inr db | Some e \<Rightarrow> Inl e)
      else if (update_title vals = Given None \<or> update_content vals = Given None)
         \<and> list_ex (\<lambda>r. ident r = i) (posts_table db)
      then Inl IntegrityError
      else Inr (db\<lparr>posts_table :=
                  map (\<lambda>r. if ident r = i
                           then r\<lparr>title := set_column (update_title vals) (title r),
                                  content := set_column (update_content vals) (content r)\<rparr>
                           else r)
                      (posts_table db)\<rparr>))"

definition backend_update_post ::
  "exn option \<Rightarrow> PostPartialUpdate \<Rightarrow> PostPublic \<Rightarrow> Database
   \<Rightarrow> (exn + PostPublic) \<times> Database" where
  "backend_update_post no_values post_update post db =
     (case posts_update no_values (ident post) post_update db of
        Inl e \<Rightarrow> (Inl e, db)
      | Inr db' \<Rightarrow> (backend_get_post_or_404 (ident post) db', db'))"

text \<open>
  Modelled from the spec: the declaration of the \<^verbatim>\<open>comments\<close> table is missing, and
  for the spec the effect of a deletion on the comments of the post "is
  storage-default (no explicit cascade logic)". The store is SQLite opened with its
  defaults, which do not enforce foreign keys, so
  \<^verbatim>\<open>posts.delete().where(posts.c.id == post.id)\<close>, the only statement of the handler,
  touches the \<^verbatim>\<open>posts\<close> table alone.
\<close>

definition posts_delete :: "int \<Rightarrow> Database \<Rightarrow> Database" where
  "posts_delete i db = db\<lparr>posts_table := filter (\<lambda>r. ident r \<noteq> i) (posts_table db)\<rparr>"

definition backend_delete_post :: "PostPublic \<Rightarrow> Database \<Rightarrow> (exn + unit) \<times> Database" where
  "backend_delete_post post db = (Inr (), posts_delete (ident post) db)"

text \<open>
  In \<^verbatim>\<open>f"Post {id} does not exist"\<close> no variable \<^verbatim>\<open>id\<close> is in scope of
  \<^verbatim>\<open>create_comment\<close>, so the name is Python's built-in function and the text is the
  same for every request.
\<close>

definition builtin_id_repr :: string where
  "builtin_id_repr = ''<built-in function id>''"

definition post_does_not_exist :: string where
  "post_does_not_exist = ''Post '' @ builtin_id_repr @ '' does not exist''"

definition backend_create_comment ::
  "CommentBase \<Rightarrow> Database \<Rightarrow> (exn + CommentDB) \<times> Database" where
  "backend_create_comment comment db =
     (case fetch_one ident (post_id comment) (posts_table db) of
        Inl e \<Rightarrow> (Inl e, db)
      | Inr None \<Rightarrow> (Inl (HTTPException HTTP_400_BAD_REQUEST (Some post_does_not_exist)), db)
      | Inr (Some post) \<Rightarrow>
          (case comments_insert comment db of
             Inl e \<Rightarrow> (Inl e, db)
           | Inr (comment_id, db') \<Rightarrow>
               (case fetch_one comment_ident comment_id (comments_table db') of
                  Inl e \<Rightarrow> (Inl e, db')
                | Inr None \<Rightarrow> (Inl TypeError, db')
                | Inr (Some raw_comment) \<Rightarrow> (Inr (comments_row raw_comment), db'))))"

section \<open>The object-relational application (\<^verbatim>\<open>tortoise/app.py\<close>)\<close>

text \<open>
  An entity of \<^verbatim>\<open>PostTortoise\<close> has the columns of its row and, once
  \<^verbatim>\<open>prefetch_related("comments")\<close> has run, the comments of the post; an entity of
  \<^verbatim>\<open>CommentTortoise\<close> has the columns of \<^verbatim>\<open>CommentDB\<close>.
\<close>

record PostTortoise = PostDB +
  related_comments :: "CommentDB list option"

type_synonym CommentTortoise = CommentDB

text \<open>
  \<^verbatim>\<open>publication_date = fields.DatetimeField(null=False)\<close>: whenever an entity takes a
  date, from the arguments of its constructor or from a row, the field makes it a
  value of the mapper's time zone, which is UTC as \<^verbatim>\<open>register_tortoise\<close> is called
  here: a naive value is taken to show UTC, a value with an offset is moved to UTC.
\<close>

definition to_python_value :: "datetime \<Rightarrow> datetime" where
  "to_python_value d =
     (case utcoffset d of
        None \<Rightarrow> \<lparr>wall_clock = wall_clock d, utcoffset = Some 0\<rparr>
      | Some off \<Rightarrow> \<lparr>wall_clock = wall_clock d - off, utcoffset = Some 0\<rparr>)"

text \<open>
  \<^verbatim>\<open>title = fields.CharField(max_length=255, null=False)\<close>: the field refuses a
  string of more than 255 characters with \<^verbatim>\<open>ValidationError\<close>, when an entity takes
  a title and when an entity is written. \<^verbatim>\<open>content\<close> is a \<^verbatim>\<open>TextField\<close>, which
  has no bound.
\<close>

definition max_length :: nat where
  "max_length = 255"

definition PostTortoise_of :: "'a PostDB_scheme \<Rightarrow> PostTortoise" where
  "PostTortoise_of r =
     \<lparr>title = title r, content = content r,
      publication_date = to_python_value (publication_date r),
      ident = ident r, related_comments = None\<rparr>"

definition CommentTortoise_of :: "CommentDB \<Rightarrow> CommentTortoise" where
  "CommentTortoise_of c =
     c\<lparr>comment_publication_date := to_python_value (comment_publication_date c)\<rparr>"

text \<open>
  The foreign key of \<^verbatim>\<open>CommentTortoise\<close> as \<^verbatim>\<open>tortoise/models.py\<close> declares it:
  \<^verbatim>\<open>ForeignKeyField("models.PostTortoise", related_name="comments", null=False)\<close>,
  with no \<^verbatim>\<open>on_delete\<close>. The mapper's \<^verbatim>\<open>ForeignKeyField\<close> takes \<^verbatim>\<open>CASCADE\<close> when the
  declaration gives none, and its SQLite connection enforces foreign keys.
\<close>

datatype OnDelete = CASCADE | RESTRICT | SET_NULL | SET_DEFAULT | NO_ACTION

record ForeignKeyField =
  model_name :: string
  related_name :: string
  nullable :: bool
  on_delete :: "OnDelete option"

definition CommentTortoise_post :: ForeignKeyField where
  "CommentTortoise_post =
     \<lparr>model_name = ''models.PostTortoise'', related_name = ''comments'',
      nullable = False, on_delete = None\<rparr>"

definition on_delete_policy :: "ForeignKeyField \<Rightarrow> OnDelete" where
  "on_delete_policy f = (case on_delete f of None \<Rightarrow> CASCADE | Some a \<Rightarrow> a)"

text \<open>
  \<^verbatim>\<open>PostTortoise.get(id=i)\<close>: the one row with that identifier; as the source notes,
  \<^verbatim>\<open>DoesNotExist\<close> when there is none and \<^verbatim>\<open>MultipleObjectsReturned\<close> when there are
  several. The mapper writes the identifier into the text of its statement, where an
  integer that is not one of the store equals no identifier.
\<close>

definition PostTortoise_get :: "int \<Rightarrow> Database \<Rightarrow> exn + PostTortoise" where
  "PostTortoise_get i db =
     (case filter (\<lambda>r. ident r = i) (posts_table db) of
        [] \<Rightarrow> Inl DoesNotExist
      | [r] \<Rightarrow> Inr (PostTortoise_of r)
      | _ \<Rightarrow> Inl MultipleObjectsReturned)"

definition prefetch_related :: "PostTortoise \<Rightarrow> Database \<Rightarrow> PostTortoise" where
  "prefetch_related post db =
     post\<lparr>related_comments :=
            Some (map CommentTortoise_of
                    (filter (\<lambda>c. post_id c = ident post) (comments_table db)))\<rparr>"

definition tortoise_get_post_or_404 :: "int \<Rightarrow> Database \<Rightarrow> exn + PostTortoise" where
  "tortoise_get_post_or_404 i db =
     (case PostTortoise_get i db of
        Inr post \<Rightarrow> Inr (prefetch_related post db)
      | Inl DoesNotExist \<Rightarrow> Inl (HTTPException HTTP_404_NOT_FOUND None)
      | Inl e \<Rightarrow> Inl e)"

definition tortoise_get_post :: "PostTortoise \<Rightarrow> PostDB" where
  "tortoise_get_post post = PostDB_of post"

text \<open>
  \<^verbatim>\<open>PostTortoise.create(**post.dict())\<close> builds the entity from the arguments, each
  read by its field, and inserts its row; the entity then has the identifier of the
  row.
\<close>

definition PostTortoise_create :: "PostBase \<Rightarrow> Database \<Rightarrow> exn + PostTortoise \<times> Database" where
  "PostTortoise_create kwargs db =
     (if max_length < length (title kwargs) then Inl ValidationError
      else (let vals = \<lparr>title = title kwargs, content = content kwargs,
                        publication_date = to_python_value (publication_date kwargs)\<rparr>
            in case insert_post vals db of
                 Inl e \<Rightarrow> Inl e
               | Inr (new_id, db') \<Rightarrow>
                   Inr (\<lparr>title = title vals, content = content vals,
                         publication_date = publication_date vals, ident = new_id,
                         related_comments = None\<rparr>, db')))"

definition tortoise_create_post :: "PostBase \<Rightarrow> Database \<Rightarrow> (exn + PostDB) \<times> Database" where
  "tortoise_create_post post db =
     (case PostTortoise_create post db of
        Inl e \<Rightarrow> (Inl e, db)
      | Inr (post_tortoise, db') \<Rightarrow> (Inr (PostDB_of post_tortoise), db'))"

text \<open>
  \<^verbatim>\<open>update_from_dict\<close> sets the attributes the dictionary names, in its order (title,
  then content); it refuses \<^verbatim>\<open>None\<close> for a field declared \<^verbatim>\<open>null=False\<close> with
  \<^verbatim>\<open>ValueError\<close>, and a value that the field does not accept. \<^verbatim>\<open>save\<close> writes the
  columns of the entity, each through its field, to the row of its identifier.
\<close>

definition too_long :: "str body_field \<Rightarrow> bool" where
  "too_long f = (case f of Given (Some v) \<Rightarrow> max_length < length v | _ \<Rightarrow> False)"

definition update_from_dict :: "PostTortoise \<Rightarrow> PostPartialUpdate \<Rightarrow> exn + PostTortoise" where
  "update_from_dict post d =
     (if update_title d = Given None then Inl ValueError
      else if too_long (update_title d) then Inl ValidationError
      else (let post1 = post\<lparr>title := set_column (update_title d) (title post)\<rparr> in
            if update_content d = Given None then Inl ValueError
            else Inr (post1\<lparr>content := set_column (update_content d) (content post1)\<rparr>)))"

definition save :: "PostTortoise \<Rightarrow> Database \<Rightarrow> exn + Database" where
  "save post db =
     (if max_length < length (title post) then Inl ValidationError
      else Inr (db\<lparr>posts_table :=
                     map (\<lambda>r. if ident r = ident post
                              then r\<lparr>title := title post, content := content post,
                                     publication_date := publication_date post\<rparr>
                              else r)
                         (posts_table db)\<rparr>))"

definition tortoise_update_post ::
  "PostPartialUpdate \<Rightarrow> PostTortoise \<Rightarrow> Database \<Rightarrow> (exn + PostDB) \<times> Database" where
  "tortoise_update_post post_update post db =
     (case update_from_dict post post_update of
        Inl e \<Rightarrow> (Inl e, db)
      | Inr post' \<Rightarrow>
          (case save post' db of
             Inl e \<Rightarrow> (Inl e, db)
           | Inr db' \<Rightarrow> (Inr (PostDB_of post'), db')))"

text \<open>
  \<^verbatim>\<open>post.delete()\<close> deletes the row of the entity; the store then applies the policy of
  the foreign key to the comments of the post.
\<close>

definition PostTortoise_delete :: "PostTortoise \<Rightarrow> Database \<Rightarrow> exn + Database" where
  "PostTortoise_delete post db =
     (case on_delete_policy CommentTortoise_post of
        CASCADE \<Rightarrow>
          Inr (db\<lparr>posts_table := filter (\<lambda>r. ident r \<noteq> ident post) (posts_table db),
                  comments_table :=
                    filter (\<lambda>c. post_id c \<noteq> ident post) (comments_table db)\<rparr>)
      | _ \<Rightarrow>
          if list_ex (\<lambda>c. post_id c = ident post) (comments_table db)
          then Inl IntegrityError
          else Inr (db\<lparr>posts_table :=
                         filter (\<lambda>r. ident r \<noteq> ident post) (posts_table db)\<rparr>))"

definition tortoise_delete_post :: "PostTortoise \<Rightarrow> Database \<Rightarrow> (exn + unit) \<times> Database" where
  "tortoise_delete_post post db =
     (case PostTortoise_delete post db of
        Inl e \<Rightarrow> (Inl e, db)
      | Inr db' \<Rightarrow> (Inr (), db'))"

definition CommentTortoise_create ::
  "CommentBase \<Rightarrow> Database \<Rightarrow> exn + CommentTortoise \<times> Database" where
  "CommentTortoise_create kwargs db =
     (let vals = \<lparr>post_id = post_id kwargs,
                   comment_publication_date =
                     to_python_value (comment_publication_date kwargs),
                   comment_content = comment_content kwargs\<rparr>
      in case insert_comment vals db of
           Inl e \<Rightarrow> Inl e
         | Inr (new_id, db') \<Rightarrow>
             Inr (\<lparr>post_id = post_id vals,
                   comment_publication_date = comment_publication_date vals,
                   comment_content = comment_content vals, comment_ident = new_id\<rparr>, db'))"

definition tortoise_create_comment ::
  "CommentBase \<Rightarrow> Database \<Rightarrow> (exn + CommentDB) \<times> Database" where
  "tortoise_create_comment comment db =
     (case PostTortoise_get (post_id comment) db of
        Inl DoesNotExist \<Rightarrow>
          (Inl (HTTPException HTTP_400_BAD_REQUEST (Some post_does_not_exist)), db)
      | Inl e \<Rightarrow> (Inl e, db)
      | Inr post \<Rightarrow>
          (case CommentTortoise_create comment db of
             Inl e \<Rightarrow> (Inl e, db)
           | Inr (comment_tortoise, db') \<Rightarrow> (Inr comment_tortoise, db')))"

text \<open>
  The stored states that this application writes: titles are within the bound of
  their field, and dates are stored as the fields of the entities hold them.
\<close>

definition tortoise_inv :: "Database \<Rightarrow> bool" where
  "tortoise_inv db \<longleftrightarrow>
     db_inv db
     \<and> (\<forall>p \<in> set (posts_table db).
           length (title p) \<le> max_length \<and> utcoffset (publication_date p) = Some 0)
     \<and> (\<forall>c \<in> set (comments_table db). utcoffset (comment_publication_date c) = Some 0)"

section \<open>The HTTP boundary\<close>

text \<open>
  A handler that declares \<^verbatim>\<open>post = Depends(get_post_or_404)\<close> runs after the dependency
  has turned the identifier of the path into a post; when the dependency raises, the
  handler does not run.
\<close>

definition Depends ::
  "(int \<Rightarrow> Database \<Rightarrow> exn + 'p) \<Rightarrow> ('p \<Rightarrow> Database \<Rightarrow> (exn + 'a) \<times> Database)
   \<Rightarrow> int \<Rightarrow> Database \<Rightarrow> (exn + 'a) \<times> Database" where
  "Depends dependency handler i db =
     (case dependency i db of Inl e \<Rightarrow> (Inl e, db) | Inr post \<Rightarrow> handler post db)"

text \<open>
  What is sent back: the status code of the route's decorator with the returned value
  read through the decorator's \<^verbatim>\<open>response_model\<close>, or the status and detail of an
  \<^verbatim>\<open>HTTPException\<close> (\<open>JSON_detail None\<close> is the detail that the framework gives a
  status when the source gives none). A request that the boundary refuses is answered
  with 422. Any other exception is a server error, but for the two handlers that
  \<^verbatim>\<open>register_tortoise(add_exception_handlers=True)\<close> installs in the second
  application; their detail is made from the exception.
\<close>

datatype http_content =
    Empty
  | JSON_PostDB PostDB
  | JSON_CommentDB CommentDB
  | JSON_detail "string option"
  | JSON_detail_of exn
  | Internal_Server_Error

record Response =
  status_code :: nat
  body :: http_content

definition backend_exception_handler :: "exn \<Rightarrow> Response" where
  "backend_exception_handler e =
     (case e of
        HTTPException code detail \<Rightarrow> \<lparr>status_code = code, body = JSON_detail detail\<rparr>
      | RequestValidationError \<Rightarrow>
          \<lparr>status_code = 422, body = JSON_detail_of RequestValidationError\<rparr>
      | _ \<Rightarrow> \<lparr>status_code = 500, body = Internal_Server_Error\<rparr>)"

definition tortoise_exception_handler :: "exn \<Rightarrow> Response" where
  "tortoise_exception_handler e =
     (case e of
        HTTPException code detail \<Rightarrow> \<lparr>status_code = code, body = JSON_detail detail\<rparr>
      | RequestValidationError \<Rightarrow>
          \<lparr>status_code = 422, body = JSON_detail_of RequestValidationError\<rparr>
      | DoesNotExist \<Rightarrow> \<lparr>status_code = 404, body = JSON_detail_of DoesNotExist\<rparr>
      | IntegrityError \<Rightarrow> \<lparr>status_code = 422, body = JSON_detail_of IntegrityError\<rparr>
      | _ \<Rightarrow> \<lparr>status_code = 500, body = Internal_Server_Error\<rparr>)"

definition respond ::
  "(exn \<Rightarrow> Response) \<Rightarrow> nat \<Rightarrow> ('a \<Rightarrow> http_content) \<Rightarrow> (exn + 'a) \<times> Database
   \<Rightarrow> Response \<times> Database" where
  "respond exception_handler status response_model r =
     (case r of
        (Inl e, db) \<Rightarrow> (exception_handler e, db)
      | (Inr v, db) \<Rightarrow> (\<lparr>status_code = status, body = response_model v\<rparr>, db))"

text \<open>
  The routes of \<^verbatim>\<open>backend/app.py\<close> that a request can take, each with the
  decorator's status and model. The decorator of \<^verbatim>\<open>get_posts\<close> gives the path
  \<^verbatim>\<open>posts/{id}\<close>, which is the path of no request (see the route tables below), so
  that function answers none.
\<close>

definition backend_create_post_route :: "PostBase \<Rightarrow> Database \<Rightarrow> Response \<times> Database" where
  "backend_create_post_route post db =
     respond backend_exception_handler HTTP_201_CREATED (\<lambda>v. JSON_PostDB (PostDB_of v))
       (backend_create_post post db)"

definition backend_update_post_route ::
  "exn option \<Rightarrow> int \<Rightarrow> PostPartialUpdate \<Rightarrow> Database \<Rightarrow> Response \<times> Database" where
  "backend_update_post_route no_values i post_update db =
     respond backend_exception_handler HTTP_200_OK (\<lambda>v. JSON_PostDB (PostDB_of v))
       (Depends backend_get_post_or_404 (backend_update_post no_values post_update) i db)"

definition backend_delete_post_route :: "int \<Rightarrow> Database \<Rightarrow> Response \<times> Database" where
  "backend_delete_post_route i db =
     respond backend_exception_handler HTTP_204_NO_CONTENT (\<lambda>v. Empty)
       (Depends backend_get_post_or_404 backend_delete_post i db)"

definition backend_create_comment_route ::
  "CommentBase \<Rightarrow> Database \<Rightarrow> Response \<times> Database" where
  "backend_create_comment_route comment db =
     respond backend_exception_handler HTTP_201_CREATED JSON_CommentDB
       (backend_create_comment comment db)"

text \<open>The routes of \<^verbatim>\<open>tortoise/app.py\<close>.\<close>

definition tortoise_get_post_route :: "int \<Rightarrow> Database \<Rightarrow> Response \<times> Database" where
  "tortoise_get_post_route i db =
     respond tortoise_exception_handler HTTP_200_OK JSON_PostDB
       (Depends tortoise_get_post_or_404 (\<lambda>post db'. (Inr (tortoise_get_post post), db')) i db)"

definition tortoise_create_post_route :: "PostBase \<Rightarrow> Database \<Rightarrow> Response \<times> Database" where
  "tortoise_create_post_route post db =
     respond tortoise_exception_handler HTTP_201_CREATED JSON_PostDB
       (tortoise_create_post post db)"

definition tortoise_update_post_route ::
  "int \<Rightarrow> PostPartialUpdate \<Rightarrow> Database \<Rightarrow> Response \<times> Database" where
  "tortoise_update_post_route i post_update db =
     respond tortoise_exception_handler HTTP_200_OK JSON_PostDB
       (Depends tortoise_get_post_or_404 (tortoise_update_post post_update) i db)"

definition tortoise_delete_post_route :: "int \<Rightarrow> Database \<Rightarrow> Response \<times> Database" where
  "tortoise_delete_post_route i db =
     respond tortoise_exception_handler HTTP_204_NO_CONTENT (\<lambda>v. Empty)
       (Depends tortoise_get_post_or_404 tortoise_delete_post i db)"

definition tortoise_create_comment_route ::
  "CommentBase \<Rightarrow> Database \<Rightarrow> Response \<times> Database" where
  "tortoise_create_comment_route comment db =
     respond tortoise_exception_handler HTTP_201_CREATED JSON_CommentDB
       (tortoise_create_comment comment db)"

subsection \<open>Route tables\<close>

text \<open>
  The decorators of each application, in the order of the file: method, path as
  written, name of the function. A path is matched segment by segment; a segment
  \<^verbatim>\<open>{name}\<close> of the route stands for one non-empty segment of the request, any other
  segment for itself. The path of a request starts with a slash.
\<close>

datatype http_method = GET | POST | PATCH | DELETE

type_synonym route = "http_method \<times> string \<times> string"

definition backend_routes :: "route list" where
  "backend_routes =
     [(GET, ''/posts'', ''list_posts''),
      (GET, ''posts/{id}'', ''get_posts''),
      (POST, ''/posts'', ''create_post''),
      (PATCH, ''/posts/{id}'', ''update_post''),
      (DELETE, ''/posts/{id}'', ''delete_post''),
      (POST, ''/comments'', ''create_comment'')]"

definition tortoise_routes :: "route list" where
  "tortoise_routes =
     [(GET, ''/posts'', ''list_posts''),
      (GET, ''/posts/{id}'', ''get_post''),
      (POST, ''/posts'', ''create_post''),
      (PATCH, ''/posts/{id}'', ''update_post''),
      (DELETE, ''/posts/{id}'', ''delete_post''),
      (POST, ''/comments'', ''create_comment'')]"

fun split_path :: "string \<Rightarrow> string list" where
  "split_path [] = [[]]"
| "split_path (c # cs) =
     (if c = CHR ''/'' then [] # split_path cs
      else (case split_path cs of [] \<Rightarrow> [[c]] | s # ss \<Rightarrow> (c # s) # ss))"

definition is_param :: "string \<Rightarrow> bool" where
  "is_param seg \<longleftrightarrow> 2 \<le> length seg \<and> hd seg = CHR ''{'' \<and> last seg = CHR ''}''"

definition param_name :: "string \<Rightarrow> string" where
  "param_name seg = butlast (tl seg)"

fun match_segments :: "string list \<Rightarrow> string list \<Rightarrow> (string \<times> string) list option" where
  "match_segments [] [] = Some []"
| "match_segments (t # ts) (s # ss) =
     (if is_param t
      then (if s = [] then None
            else map_option (\<lambda>ps. (param_name t, s) # ps) (match_segments ts ss))
      else if t = s then match_segments ts ss else None)"
| "match_segments _ _ = None"

definition match_path :: "string \<Rightarrow> string \<Rightarrow> (string \<times> string) list option" where
  "match_path template path = match_segments (split_path template) (split_path path)"

fun find_route ::
  "route list \<Rightarrow> http_method \<Rightarrow> string \<Rightarrow> (string \<times> (string \<times> string) list) option" where
  "find_route [] m path = None"
| "find_route ((m', template, name) # rs) m path =
     (if m' = m
      then (case match_path template path of
              Some params \<Rightarrow> Some (name, params)
            | None \<Rightarrow> find_route rs m path)
      else find_route rs m path)"

section \<open>The result of a partial update\<close>

text \<open>
  The row that a partial update leaves in place of the row \<open>r\<close> when the body gives
  no \<^verbatim>\<open>null\<close>: the fields the body gives are set, the others are those of \<open>r\<close>.
\<close>

definition updated_row :: "PostDB \<Rightarrow> PostPartialUpdate \<Rightarrow> PostDB" where
  "updated_row r u = r\<lparr>title := set_column (update_title u) (title r),
                       content := set_column (update_content u) (content r)\<rparr>"

text \<open>
  The same row as an entity of the second application holds it, and as that application
  writes it back.
\<close>

definition entity_row :: "PostDB \<Rightarrow> PostDB" where
  "entity_row r = r\<lparr>publication_date := to_python_value (publication_date r)\<rparr>"

section \<open>Reachable states\<close>

text \<open>
  The stored states that requests to an application lead to, from the empty store. A
  request for the list of posts reads only and is left out.
\<close>

inductive backend_reachable :: "Database \<Rightarrow> bool" where
  start: "backend_reachable empty_database"
| create_post:
    "backend_reachable db \<Longrightarrow> backend_reachable (snd (backend_create_post_route post db))"
| update_post:
    "backend_reachable db \<Longrightarrow>
     backend_reachable (snd (backend_update_post_route no_values i post_update db))"
| delete_post:
    "backend_reachable db \<Longrightarrow> backend_reachable (snd (backend_delete_post_route i db))"
| create_comment:
    "backend_reachable db \<Longrightarrow>
     backend_reachable (snd (backend_create_comment_route comment db))"

inductive tortoise_reachable :: "Database \<Rightarrow> bool" where
  start: "tortoise_reachable empty_database"
| get_post: "tortoise_reachable db \<Longrightarrow> tortoise_reachable (snd (tortoise_get_post_route i db))"
| create_post:
    "tortoise_reachable db \<Longrightarrow> tortoise_reachable (snd (tortoise_create_post_route post db))"
| update_post:
    "tortoise_reachable db \<Longrightarrow>
     tortoise_reachable (snd (tortoise_update_post_route i post_update db))"
| delete_post:
    "tortoise_reachable db \<Longrightarrow> tortoise_reachable (snd (tortoise_delete_post_route i db))"
| create_comment:
    "tortoise_reachable db \<Longrightarrow>
     tortoise_reachable (snd (tortoise_create_comment_route comment db))"

section \<open>An example state\<close>

text \<open>
  Two posts and three comments, two of them on the first post. The titles and contents
  are single letters, written as code points (65 is the letter A); the dates are
  values of UTC.
\<close>

definition example_db :: Database where
  "example_db =
     \<lparr>posts_table =
        [\<lparr>title = [65], content = [66], publication_date = utc 10, ident = 1\<rparr>,
         \<lparr>title = [67], content = [68], publication_date = utc 20, ident = 2\<rparr>],
      comments_table =
        [\<lparr>post_id = 1, comment_publication_date = utc 11, comment_content = [120],
          comment_ident = 1\<rparr>,
         \<lparr>post_id = 2, comment_publication_date = utc 21, comment_content = [121],
          comment_ident = 2\<rparr>,
         \<lparr>post_id = 1, comment_publication_date = utc 12, comment_content = [122],
          comment_ident = 3\<rparr>],
      posts_sequence = 2, comments_sequence = 3\<rparr>"

section \<open>Properties of the model\<close>

subsection \<open>Dates\<close>

lemma without_tzinfo_sel [simp]:
  "wall_clock (without_tzinfo d) = wall_clock d" "utcoffset (without_tzinfo d) = None"
  by (simp_all add: without_tzinfo_def)

lemma to_python_value_utcoffset [simp]: "utcoffset (to_python_value d) = Some 0"
  by (simp add: to_python_value_def split: option.splits)

lemma to_python_value_stored: "utcoffset d = Some 0 \<Longrightarrow> to_python_value d = d"
  by (simp add: to_python_value_def)

lemma to_python_value_naive [simp]: "to_python_value (naive w) = utc w"
  by (simp add: to_python_value_def naive_def utc_def)

lemma to_python_value_utc [simp]: "to_python_value (utc w) = utc w"
  by (simp add: to_python_value_def utc_def)

lemma without_tzinfo_naive [simp]: "without_tzinfo (naive w) = naive w"
  by (simp add: without_tzinfo_def naive_def)

lemma without_tzinfo_utc [simp]: "without_tzinfo (utc w) = naive w"
  by (simp add: without_tzinfo_def naive_def utc_def)

lemma without_tzinfo_idem [simp]: "without_tzinfo (without_tzinfo d) = without_tzinfo d"
  by (simp add: without_tzinfo_def)

lemma naive_neq_utc [simp]: "naive w \<noteq> utc w'" "utc w' \<noteq> naive w"
  by (simp_all add: naive_def utc_def)

lemma without_tzinfo_neq_to_python_value: "without_tzinfo d \<noteq> to_python_value d'"
proof
  assume "without_tzinfo d = to_python_value d'"
  then have "utcoffset (without_tzinfo d) = utcoffset (to_python_value d')"
    by simp
  then show False
    by simp
qed

subsection \<open>Rows and selections\<close>

lemma find_None_post_exists:
  "find (\<lambda>r. ident r = i) (posts_table db) = None \<longleftrightarrow> \<not> post_exists i db"
  by (auto simp: post_exists_def find_None_iff)

lemma filter_distinct_key:
  "distinct (map f xs) \<Longrightarrow> x \<in> set xs \<Longrightarrow> filter (\<lambda>y. f y = f x) xs = [x]"
  by (induction xs) (auto simp: filter_empty_conv image_iff)

lemma find_distinct_key:
  "distinct (map f xs) \<Longrightarrow> x \<in> set xs \<Longrightarrow> find (\<lambda>y. f y = f x) xs = Some x"
  by (induction xs) (auto simp: image_iff)

lemma filter_key_empty: "filter (\<lambda>y. f y = i) xs = [] \<longleftrightarrow> i \<notin> f ` set xs"
  by (auto simp: filter_empty_conv)

lemma post_exists_fits: "db_inv db \<Longrightarrow> post_exists i db \<Longrightarrow> fits_int64 i"
  by (auto simp: db_inv_def post_exists_def)

lemma PostDB_of_row [simp]: "PostDB_of (r :: PostDB) = r"
  by (simp add: PostDB_of_def)

lemma PostDB_of_PostPublic_of [simp]: "PostDB_of (PostPublic_of (r :: PostDB) cs) = r"
  by (simp add: PostDB_of_def PostPublic_of_def)

lemma PostPublic_of_sel [simp]:
  "ident (PostPublic_of r cs) = ident r" "comments (PostPublic_of r cs) = cs"
  "title (PostPublic_of r cs) = title r" "content (PostPublic_of r cs) = content r"
  "publication_date (PostPublic_of r cs) = publication_date r"
  by (simp_all add: PostPublic_of_def)

lemma PostTortoise_of_sel [simp]:
  "ident (PostTortoise_of r) = ident r" "related_comments (PostTortoise_of r) = None"
  "title (PostTortoise_of r) = title r" "content (PostTortoise_of r) = content r"
  "publication_date (PostTortoise_of r) = to_python_value (publication_date r)"
  by (simp_all add: PostTortoise_of_def)

lemma PostDB_of_sel [simp]:
  "ident (PostDB_of r) = ident r"
  "title (PostDB_of r) = title r" "content (PostDB_of r) = content r"
  "publication_date (PostDB_of r) = publication_date r"
  by (simp_all add: PostDB_of_def)

lemma PostDB_of_related_comments [simp]:
  "PostDB_of (p\<lparr>related_comments := x\<rparr>) = PostDB_of p"
  by (simp add: PostDB_of_def)

lemma PostDB_of_PostTortoise_of [simp]:
  "PostDB_of (PostTortoise_of (r :: PostDB)) = entity_row r"
  by (simp add: PostDB_of_def PostTortoise_of_def entity_row_def)

lemma posts_row_sel [simp]:
  "ident (posts_row r) = ident r" "title (posts_row r) = title r"
  "content (posts_row r) = content r"
  "publication_date (posts_row r) = without_tzinfo (publication_date r)"
  by (simp_all add: posts_row_def)

lemma entity_row_sel [simp]:
  "ident (entity_row r) = ident r" "title (entity_row r) = title r"
  "content (entity_row r) = content r"
  "publication_date (entity_row r) = to_python_value (publication_date r)"
  by (simp_all add: entity_row_def)

lemma comments_row_sel [simp]:
  "post_id (comments_row c) = post_id c" "comment_ident (comments_row c) = comment_ident c"
  "comment_content (comments_row c) = comment_content c"
  "comment_publication_date (comments_row c) = without_tzinfo (comment_publication_date c)"
  by (simp_all add: comments_row_def)

lemma CommentTortoise_of_sel [simp]:
  "post_id (CommentTortoise_of c) = post_id c"
  "comment_ident (CommentTortoise_of c) = comment_ident c"
  "comment_content (CommentTortoise_of c) = comment_content c"
  "comment_publication_date (CommentTortoise_of c)
     = to_python_value (comment_publication_date c)"
  by (simp_all add: CommentTortoise_of_def)

lemma entity_row_stored: "utcoffset (publication_date r) = Some 0 \<Longrightarrow> entity_row r = r"
  by (simp add: entity_row_def to_python_value_stored)

lemma posts_row_neq_entity_row: "posts_row r \<noteq> entity_row r'"
proof
  assume "posts_row r = entity_row r'"
  then have "publication_date (posts_row r) = publication_date (entity_row r')"
    by simp
  then show False
    by (simp add: without_tzinfo_neq_to_python_value)
qed

subsection \<open>The existence check\<close>

lemma backend_get_post_or_404_overflow:
  "\<not> fits_int64 i \<Longrightarrow> backend_get_post_or_404 i db = Inl OverflowError"
  by (simp add: backend_get_post_or_404_def fetch_one_def)

lemma backend_get_post_or_404_absent:
  "backend_get_post_or_404 i db = Inl (HTTPException HTTP_404_NOT_FOUND None)
     \<longleftrightarrow> fits_int64 i \<and> \<not> post_exists i db"
  using find_None_post_exists [of i db]
  by (auto simp: backend_get_post_or_404_def fetch_one_def fetch_all_def
      split: option.splits)

lemma backend_get_post_or_404_present:
  assumes "fits_int64 i" "post_exists i db"
  shows "\<exists>r \<in> set (posts_table db). ident r = i \<and>
           backend_get_post_or_404 i db
             = Inr (PostPublic_of (posts_row r)
                      (map comments_row (filter (\<lambda>c. post_id c = i) (comments_table db))))"
proof -
  from assms(2) obtain r where r: "find (\<lambda>r. ident r = i) (posts_table db) = Some r"
    using find_None_post_exists [of i db] by auto
  then have "r \<in> set (posts_table db)" "ident r = i"
    by (auto simp: find_Some_iff)
  with r assms(1) show ?thesis
    by (auto simp: backend_get_post_or_404_def fetch_one_def fetch_all_def)
qed

lemma backend_get_post_or_404_row:
  assumes "db_inv db" "r \<in> set (posts_table db)"
  shows "backend_get_post_or_404 (ident r) db
       = Inr (PostPublic_of (posts_row r)
                (map comments_row (filter (\<lambda>c. post_id c = ident r) (comments_table db))))"
proof -
  from assms have d: "distinct (map ident (posts_table db))" and f: "fits_int64 (ident r)"
    by (simp_all add: db_inv_def)
  from find_distinct_key [OF d assms(2)] f show ?thesis
    by (simp add: backend_get_post_or_404_def fetch_one_def fetch_all_def)
qed

lemma PostTortoise_get_DoesNotExist:
  "PostTortoise_get i db = Inl DoesNotExist \<longleftrightarrow> \<not> post_exists i db"
proof -
  have "PostTortoise_get i db = Inl DoesNotExist
        \<longleftrightarrow> filter (\<lambda>r. ident r = i) (posts_table db) = []"
    by (simp add: PostTortoise_get_def split: list.splits)
  then show ?thesis
    by (simp add: filter_key_empty post_exists_def)
qed

lemma PostTortoise_get_exists:
  assumes "distinct (map ident (posts_table db))" "r \<in> set (posts_table db)"
  shows "PostTortoise_get (ident r) db = Inr (PostTortoise_of r)"
  using filter_distinct_key [OF assms] by (simp add: PostTortoise_get_def)

lemma PostTortoise_get_no_HTTPException: "PostTortoise_get i db \<noteq> Inl (HTTPException c d)"
  by (simp add: PostTortoise_get_def split: list.splits)

lemma tortoise_get_post_or_404_absent:
  "tortoise_get_post_or_404 i db = Inl (HTTPException HTTP_404_NOT_FOUND None) \<longleftrightarrow> \<not> post_exists i db"
  using PostTortoise_get_DoesNotExist [of i db] PostTortoise_get_no_HTTPException [of i db]
  by (auto simp: tortoise_get_post_or_404_def split: sum.splits exn.splits)

lemma tortoise_get_post_or_404_row:
  assumes "db_inv db" "r \<in> set (posts_table db)"
  shows "tortoise_get_post_or_404 (ident r) db
       = Inr ((PostTortoise_of r)\<lparr>related_comments :=
                 Some (map CommentTortoise_of
                        (filter (\<lambda>c. post_id c = ident r) (comments_table db)))\<rparr>)"
proof -
  from assms(1) have "distinct (map ident (posts_table db))"
    by (simp add: db_inv_def)
  from PostTortoise_get_exists [OF this assms(2)] show ?thesis
    by (simp add: tortoise_get_post_or_404_def prefetch_related_def)
qed

lemma tortoise_get_post_or_404_present:
  assumes "db_inv db" "post_exists i db"
  shows "\<exists>r \<in> set (posts_table db). ident r = i \<and>
           tortoise_get_post_or_404 i db
             = Inr ((PostTortoise_of r)\<lparr>related_comments :=
                      Some (map CommentTortoise_of
                             (filter (\<lambda>c. post_id c = i) (comments_table db)))\<rparr>)"
proof -
  from assms(2) obtain r where r: "r \<in> set (posts_table db)" "ident r = i"
    by (auto simp: post_exists_def)
  from tortoise_get_post_or_404_row [OF assms(1) r(1)] r show ?thesis
    by auto
qed

subsection \<open>The invariant of the stored state\<close>

lemma db_inv_empty: "db_inv empty_database"
  by (simp add: db_inv_def empty_database_def)

lemma tortoise_inv_empty: "tortoise_inv empty_database"
  by (simp add: tortoise_inv_def db_inv_def empty_database_def)

lemma db_inv_insert_post:
  "db_inv db \<Longrightarrow> insert_post vals db = Inr (i, db') \<Longrightarrow> db_inv db'"
  by (fastforce simp: db_inv_def insert_post_def Let_def split: if_splits)

lemma db_inv_insert_comment:
  "db_inv db \<Longrightarrow> post_exists (post_id vals) db \<Longrightarrow> insert_comment vals db = Inr (i, db')
   \<Longrightarrow> db_inv db'"
  by (fastforce simp: db_inv_def insert_comment_def Let_def post_exists_def split: if_splits)

lemma db_inv_posts_update:
  "db_inv db \<Longrightarrow> posts_update no_values i vals db = Inr db' \<Longrightarrow> db_inv db'"
  by (auto simp: db_inv_def posts_update_def comp_def if_distrib [of ident]
      split: if_splits option.splits cong: if_cong)

lemma db_inv_posts_delete: "db_inv db \<Longrightarrow> db_inv (posts_delete i db)"
  by (auto simp: db_inv_def posts_delete_def distinct_map_filter)

lemma map_keep_key: "(\<And>x. f (g x) = f x) \<Longrightarrow> map f (map g xs) = map f xs"
  by (induction xs) simp_all

lemma db_inv_posts_table:
  assumes "db_inv db" and "map ident ps = map ident (posts_table db)"
  shows "db_inv (db\<lparr>posts_table := ps\<rparr>)"
proof -
  have "set (map ident ps) = set (map ident (posts_table db))"
    by (simp only: assms(2))
  then have "ident ` set ps = ident ` set (posts_table db)"
    by simp
  then have "\<forall>p \<in> set ps. \<exists>q \<in> set (posts_table db). ident p = ident q"
    by (metis imageE imageI)
  with assms(1) have "\<forall>p \<in> set ps. ident p \<le> posts_sequence db \<and> fits_int64 (ident p)"
    by (fastforce simp: db_inv_def)
  with assms show ?thesis
    by (simp add: db_inv_def)
qed

lemma db_inv_save: "db_inv db \<Longrightarrow> save post db = Inr db' \<Longrightarrow> db_inv db'"
proof -
  assume inv: "db_inv db" and sv: "save post db = Inr db'"
  let ?f = "\<lambda>r. if ident r = ident post
                then r\<lparr>title := title post, content := content post,
                       publication_date := publication_date post\<rparr>
                else r"
  from sv have db': "db' = db\<lparr>posts_table := map ?f (posts_table db)\<rparr>"
    by (simp add: save_def split: if_splits)
  have "map ident (map ?f (posts_table db)) = map ident (posts_table db)"
    by (rule map_keep_key) simp
  from db_inv_posts_table [OF inv this] show "db_inv db'"
    by (simp only: db')
qed

lemma db_inv_PostTortoise_delete:
  "db_inv db \<Longrightarrow> PostTortoise_delete post db = Inr db' \<Longrightarrow> db_inv db'"
  by (auto simp: db_inv_def PostTortoise_delete_def on_delete_policy_def CommentTortoise_post_def distinct_map_filter)

lemma db_inv_example: "db_inv example_db"
  by (simp add: db_inv_def example_db_def fits_int64_def)

lemma tortoise_inv_example: "tortoise_inv example_db"
  using db_inv_example by (simp add: tortoise_inv_def example_db_def max_length_def utc_def)

lemma post_exists_example:
  "post_exists 1 example_db" "post_exists 2 example_db" "\<not> post_exists 7 example_db"
  by (simp_all add: post_exists_def example_db_def)

lemma tortoise_inv_db_inv: "tortoise_inv db \<Longrightarrow> db_inv db"
  by (simp add: tortoise_inv_def)

lemma tortoise_inv_row:
  assumes "tortoise_inv db" "r \<in> set (posts_table db)"
  shows "length (title r) \<le> max_length" "utcoffset (publication_date r) = Some 0"
    "entity_row r = r"
  using assms by (auto simp: tortoise_inv_def entity_row_stored)

subsection \<open>What creating a comment returns\<close>

lemma find_append_fresh:
  "\<forall>x \<in> set xs. \<not> P x \<Longrightarrow> P y \<Longrightarrow> find P (xs @ [y]) = Some y"
  by (induction xs) auto

lemma backend_create_comment_overflow:
  "\<not> fits_int64 (post_id comment) \<Longrightarrow>
   backend_create_comment comment db = (Inl OverflowError, db)"
  by (simp add: backend_create_comment_def fetch_one_def)

lemma backend_create_comment_absent:
  "fits_int64 (post_id comment) \<Longrightarrow> \<not> post_exists (post_id comment) db \<Longrightarrow>
   backend_create_comment comment db
     = (Inl (HTTPException HTTP_400_BAD_REQUEST (Some post_does_not_exist)), db)"
  using find_None_post_exists [of "post_id comment" db]
  by (simp add: backend_create_comment_def fetch_one_def)

lemma tortoise_create_comment_absent:
  "\<not> post_exists (post_id comment) db \<Longrightarrow>
   tortoise_create_comment comment db
     = (Inl (HTTPException HTTP_400_BAD_REQUEST (Some post_does_not_exist)), db)"
  using PostTortoise_get_DoesNotExist [of "post_id comment" db]
  by (simp add: tortoise_create_comment_def)

lemma backend_create_comment_present:
  assumes "db_inv db" "post_exists (post_id comment) db"
    and "fits_int64 (comments_sequence db + 1)"
    and "row = \<lparr>post_id = post_id comment,
                 comment_publication_date = without_tzinfo (comment_publication_date comment),
                 comment_content = comment_content comment,
                 comment_ident = comments_sequence db + 1\<rparr>"
  shows "backend_create_comment comment db =
     (Inr row, db\<lparr>comments_table := comments_table db @ [row],
                  comments_sequence := comments_sequence db + 1\<rparr>)"
proof -
  from assms(2) obtain post where
    "find (\<lambda>r. ident r = post_id comment) (posts_table db) = Some post"
    using find_None_post_exists [of "post_id comment" db] by auto
  moreover have "fits_int64 (post_id comment)"
    by (rule post_exists_fits [OF assms(1,2)])
  moreover from assms(1)
  have "\<forall>c \<in> set (comments_table db). \<not> comment_ident c = comments_sequence db + 1"
    by (fastforce simp: db_inv_def)
  then have "find (\<lambda>c. comment_ident c = comments_sequence db + 1)
       (comments_table db @ [row]) = Some row"
    by (rule find_append_fresh) (simp add: assms(4))
  moreover have "comments_row row = row"
    by (simp add: comments_row_def assms(4))
  ultimately show ?thesis
    using assms(3)
    by (simp add: backend_create_comment_def comments_insert_def insert_comment_def
        fetch_one_def Let_def assms(4) [symmetric])
qed

lemma backend_create_comment_full:
  assumes "db_inv db" "post_exists (post_id comment) db"
    and "\<not> fits_int64 (comments_sequence db + 1)"
  shows "backend_create_comment comment db = (Inl OperationalError, db)"
proof -
  from assms(2) obtain post where
    "find (\<lambda>r. ident r = post_id comment) (posts_table db) = Some post"
    using find_None_post_exists [of "post_id comment" db] by auto
  moreover have "fits_int64 (post_id comment)"
    by (rule post_exists_fits [OF assms(1,2)])
  ultimately show ?thesis
    using assms(3)
    by (simp add: backend_create_comment_def comments_insert_def insert_comment_def
        fetch_one_def Let_def)
qed

lemma tortoise_create_comment_present:
  assumes "db_inv db" "post_exists (post_id comment) db"
    and "fits_int64 (comments_sequence db + 1)"
    and "row = \<lparr>post_id = post_id comment,
                 comment_publication_date = to_python_value (comment_publication_date comment),
                 comment_content = comment_content comment,
                 comment_ident = comments_sequence db + 1\<rparr>"
  shows "tortoise_create_comment comment db =
     (Inr row, db\<lparr>comments_table := comments_table db @ [row],
                  comments_sequence := comments_sequence db + 1\<rparr>)"
proof -
  from assms(2) obtain r where r: "r \<in> set (posts_table db)" "ident r = post_id comment"
    by (auto simp: post_exists_def)
  from assms(1) have "distinct (map ident (posts_table db))"
    by (simp add: db_inv_def)
  from PostTortoise_get_exists [OF this r(1)] r(2) assms(3) show ?thesis
    by (simp add: tortoise_create_comment_def CommentTortoise_create_def insert_comment_def
        Let_def assms(4))
qed

lemma tortoise_create_comment_full:
  assumes "db_inv db" "post_exists (post_id comment) db"
    and "\<not> fits_int64 (comments_sequence db + 1)"
  shows "tortoise_create_comment comment db = (Inl OperationalError, db)"
proof -
  from assms(2) obtain r where r: "r \<in> set (posts_table db)" "ident r = post_id comment"
    by (auto simp: post_exists_def)
  from assms(1) have "distinct (map ident (posts_table db))"
    by (simp add: db_inv_def)
  from PostTortoise_get_exists [OF this r(1)] r(2) assms(3) show ?thesis
    by (simp add: tortoise_create_comment_def CommentTortoise_create_def insert_comment_def
        Let_def)
qed

subsection \<open>What deleting a post returns\<close>

lemma post_exists_filter:
  "\<not> post_exists i (db\<lparr>posts_table := filter (\<lambda>r. ident r \<noteq> i) (posts_table db)\<rparr>)"
  by (auto simp: post_exists_def)

lemma backend_delete_post_route_overflow:
  "\<not> fits_int64 i \<Longrightarrow>
   backend_delete_post_route i db = (\<lparr>status_code = 500, body = Internal_Server_Error\<rparr>, db)"
  by (simp add: backend_delete_post_route_def Depends_def respond_def
      backend_get_post_or_404_overflow backend_exception_handler_def)

lemma backend_delete_post_route_absent:
  "fits_int64 i \<Longrightarrow> \<not> post_exists i db \<Longrightarrow>
   backend_delete_post_route i db = (\<lparr>status_code = 404, body = JSON_detail None\<rparr>, db)"
  using backend_get_post_or_404_absent [of i db]
  by (simp add: backend_delete_post_route_def Depends_def respond_def
      backend_exception_handler_def)

lemma tortoise_delete_post_route_absent:
  "\<not> post_exists i db \<Longrightarrow>
   tortoise_delete_post_route i db = (\<lparr>status_code = 404, body = JSON_detail None\<rparr>, db)"
  using tortoise_get_post_or_404_absent [of i db]
  by (simp add: tortoise_delete_post_route_def Depends_def respond_def
      tortoise_exception_handler_def)



subsection \<open>What updating a post returns\<close>

lemma same_key_same_row:
  "distinct (map f xs) \<Longrightarrow> x \<in> set xs \<Longrightarrow> y \<in> set xs \<Longrightarrow> f y = f x \<Longrightarrow> y = x"
  by (auto simp: distinct_map inj_on_def)

lemma map_update_key:
  assumes "distinct (map f xs)" "x \<in> set xs" "g x = x'"
  shows "map (\<lambda>y. if f y = f x then g y else y) xs = map (\<lambda>y. if f y = f x then x' else y) xs"
  using assms same_key_same_row [OF assms(1,2)] by (auto simp: map_eq_conv)

lemma find_update_key:
  assumes "distinct (map f xs)" "x \<in> set xs" "f x' = f x"
  shows "find (\<lambda>y. f y = f x) (map (\<lambda>y. if f y = f x then x' else y) xs) = Some x'"
  using assms(2,1)
proof (induction xs)
  case Nil
  then show ?case by simp
next
  case (Cons a xs)
  then show ?case using assms(3) by (auto simp: image_iff)
qed

lemma map_same_key:
  assumes "distinct (map f xs)" "x \<in> set xs"
  shows "map (\<lambda>y. if f y = f x then x else y) xs = xs"
  using same_key_same_row [OF assms] by (intro map_idI) auto

lemma updated_row_sel:
  "ident (updated_row r u) = ident r"
  "publication_date (updated_row r u) = publication_date r"
  "update_title u = Unset \<Longrightarrow> title (updated_row r u) = title r"
  "update_content u = Unset \<Longrightarrow> content (updated_row r u) = content r"
  "update_title u = Given (Some t) \<Longrightarrow> title (updated_row r u) = t"
  "update_content u = Given (Some c) \<Longrightarrow> content (updated_row r u) = c"
  by (simp_all add: updated_row_def set_column_def)

lemma updated_row_no_values:
  "update_title u = Unset \<Longrightarrow> update_content u = Unset \<Longrightarrow> updated_row r u = r"
  by (simp add: updated_row_def set_column_def)

lemma too_long_updated_row:
  "update_title u \<noteq> Given None \<Longrightarrow> too_long (update_title u)
   \<Longrightarrow> max_length < length (title (updated_row r u))"
  by (auto simp: too_long_def updated_row_def set_column_def
      split: body_field.splits option.splits)

lemma backend_update_post_present:
  assumes "db_inv db" "r \<in> set (posts_table db)"
    and "update_title u \<noteq> Unset \<or> update_content u \<noteq> Unset"
  shows "Depends backend_get_post_or_404 (backend_update_post no_values u) (ident r) db =
     (if update_title u = Given None \<or> update_content u = Given None
      then (Inl IntegrityError, db)
      else (Inr (PostPublic_of (posts_row (updated_row r u))
                  (map comments_row
                     (filter (\<lambda>c. post_id c = ident r) (comments_table db)))),
            db\<lparr>posts_table :=
                 map (\<lambda>q. if ident q = ident r then updated_row r u else q) (posts_table db)\<rparr>))"
proof -
  from assms(1,2) have d: "distinct (map ident (posts_table db))"
    and f: "fits_int64 (ident r)"
    by (simp_all add: db_inv_def)
  note get = backend_get_post_or_404_row [OF assms(1,2)]
  have ex: "list_ex (\<lambda>q. ident q = ident r) (posts_table db)"
    using assms(2) by (auto simp: list_ex_iff)
  let ?db' = "db\<lparr>posts_table :=
                 map (\<lambda>q. if ident q = ident r then updated_row r u else q) (posts_table db)\<rparr>"
  have "map (\<lambda>q. if ident q = ident r
                 then q\<lparr>title := set_column (update_title u) (title q),
                        content := set_column (update_content u) (content q)\<rparr>
                 else q) (posts_table db)
        = map (\<lambda>q. if ident q = ident r then updated_row r u else q) (posts_table db)"
    by (rule map_update_key [OF d assms(2)]) (simp add: updated_row_def)
  then have upd: "posts_update no_values (ident r) u db =
     (if update_title u = Given None \<or> update_content u = Given None
      then Inl IntegrityError else Inr ?db')"
    using ex assms(3) by (auto simp: posts_update_def)
  have get': "backend_get_post_or_404 (ident r) ?db'
       = Inr (PostPublic_of (posts_row (updated_row r u))
               (map comments_row (filter (\<lambda>c. post_id c = ident r) (comments_table db))))"
    using find_update_key [OF d assms(2), of "updated_row r u"] f
    by (simp add: backend_get_post_or_404_def fetch_one_def fetch_all_def updated_row_def)
  show ?thesis
    by (simp add: Depends_def get backend_update_post_def upd get')
qed

lemma backend_update_post_route_present:
  assumes "db_inv db" "r \<in> set (posts_table db)"
    and "update_title u \<noteq> Unset \<or> update_content u \<noteq> Unset"
  shows "backend_update_post_route no_values (ident r) u db =
     (if update_title u = Given None \<or> update_content u = Given None
      then (\<lparr>status_code = 500, body = Internal_Server_Error\<rparr>, db)
      else (\<lparr>status_code = 200, body = JSON_PostDB (posts_row (updated_row r u))\<rparr>,
            db\<lparr>posts_table :=
                 map (\<lambda>q. if ident q = ident r then updated_row r u else q) (posts_table db)\<rparr>))"
  by (simp add: backend_update_post_route_def backend_update_post_present [OF assms]
      respond_def backend_exception_handler_def)

lemma backend_update_post_no_values:
  assumes "db_inv db" "r \<in> set (posts_table db)"
    and "update_title u = Unset" "update_content u = Unset"
  shows "Depends backend_get_post_or_404 (backend_update_post no_values u) (ident r) db =
     (case no_values of
        None \<Rightarrow> (Inr (PostPublic_of (posts_row r)
                   (map comments_row
                      (filter (\<lambda>c. post_id c = ident r) (comments_table db)))), db)
      | Some e \<Rightarrow> (Inl e, db))"
  by (simp add: Depends_def backend_get_post_or_404_row [OF assms(1,2)] backend_update_post_def
      posts_update_def assms(3,4) split: option.splits)

lemma backend_update_post_route_no_values:
  assumes "db_inv db" "r \<in> set (posts_table db)"
    and "update_title u = Unset" "update_content u = Unset"
  shows "backend_update_post_route no_values (ident r) u db =
     (case no_values of
        None \<Rightarrow> (\<lparr>status_code = 200, body = JSON_PostDB (posts_row r)\<rparr>, db)
      | Some e \<Rightarrow> (backend_exception_handler e, db))"
  by (simp add: backend_update_post_route_def backend_update_post_no_values [OF assms]
      respond_def split: option.splits)

lemma backend_exception_handler_not_PostDB:
  "body (backend_exception_handler e) \<noteq> JSON_PostDB p"
  by (simp add: backend_exception_handler_def split: exn.splits)

lemma tortoise_update_post_present:
  assumes "db_inv db" "r \<in> set (posts_table db)"
  shows "Depends tortoise_get_post_or_404 (tortoise_update_post u) (ident r) db =
     (if update_title u = Given None then (Inl ValueError, db)
      else if too_long (update_title u) then (Inl ValidationError, db)
      else if update_content u = Given None then (Inl ValueError, db)
      else if max_length < length (title (updated_row r u)) then (Inl ValidationError, db)
      else (Inr (entity_row (updated_row r u)),
            db\<lparr>posts_table :=
                 map (\<lambda>q. if ident q = ident r then entity_row (updated_row r u) else q)
                   (posts_table db)\<rparr>))"
proof -
  from assms(1) have d: "distinct (map ident (posts_table db))"
    by (simp add: db_inv_def)
  let ?post = "prefetch_related (PostTortoise_of r) db"
  have get: "tortoise_get_post_or_404 (ident r) db = Inr ?post"
    by (simp add: tortoise_get_post_or_404_def PostTortoise_get_exists [OF d assms(2)])
  have sel: "ident ?post = ident r" "title ?post = title r" "content ?post = content r"
    "publication_date ?post = to_python_value (publication_date r)"
    by (simp_all add: prefetch_related_def)
  let ?post' = "?post\<lparr>title := set_column (update_title u) (title r),
                        content := set_column (update_content u) (content r)\<rparr>"
  have ufd: "update_from_dict ?post u =
     (if update_title u = Given None then Inl ValueError
      else if too_long (update_title u) then Inl ValidationError
      else if update_content u = Given None then Inl ValueError
      else Inr ?post')"
    by (simp add: update_from_dict_def Let_def sel)
  have row: "PostDB_of ?post' = entity_row (updated_row r u)"
    by (simp add: PostDB_of_def updated_row_def entity_row_def sel)
  have ttl: "title ?post' = title (updated_row r u)"
    by (simp add: updated_row_def)
  have "map (\<lambda>q. if ident q = ident r
                 then q\<lparr>title := title ?post', content := content ?post',
                        publication_date := publication_date ?post'\<rparr>
                 else q) (posts_table db)
        = map (\<lambda>q. if ident q = ident r then entity_row (updated_row r u) else q)
            (posts_table db)"
    by (rule map_update_key [OF d assms(2)]) (simp add: updated_row_def entity_row_def sel)
  then have sv: "save ?post' db =
     (if max_length < length (title (updated_row r u)) then Inl ValidationError
      else Inr (db\<lparr>posts_table :=
                 map (\<lambda>q. if ident q = ident r then entity_row (updated_row r u) else q)
                   (posts_table db)\<rparr>))"
    by (simp add: save_def sel ttl del: One_nat_def)
  show ?thesis
    by (simp add: Depends_def get tortoise_update_post_def ufd row sv)
qed

lemma tortoise_update_post_route_present:
  assumes "db_inv db" "r \<in> set (posts_table db)"
  shows "tortoise_update_post_route (ident r) u db =
     (if update_title u = Given None \<or> update_content u = Given None
         \<or> max_length < length (title (updated_row r u))
      then (\<lparr>status_code = 500, body = Internal_Server_Error\<rparr>, db)
      else (\<lparr>status_code = 200, body = JSON_PostDB (entity_row (updated_row r u))\<rparr>,
            db\<lparr>posts_table :=
                 map (\<lambda>q. if ident q = ident r then entity_row (updated_row r u) else q)
                   (posts_table db)\<rparr>))"
  using too_long_updated_row [of u r]
  by (auto simp: tortoise_update_post_route_def tortoise_update_post_present [OF assms]
      respond_def tortoise_exception_handler_def)

lemma backend_update_post_route_overflow:
  "\<not> fits_int64 i \<Longrightarrow>
   backend_update_post_route no_values i u db
     = (\<lparr>status_code = 500, body = Internal_Server_Error\<rparr>, db)"
  by (simp add: backend_update_post_route_def Depends_def respond_def
      backend_get_post_or_404_overflow backend_exception_handler_def)

lemma backend_update_post_route_absent:
  "fits_int64 i \<Longrightarrow> \<not> post_exists i db \<Longrightarrow>
   backend_update_post_route no_values i u db
     = (\<lparr>status_code = 404, body = JSON_detail None\<rparr>, db)"
  using backend_get_post_or_404_absent [of i db]
  by (simp add: backend_update_post_route_def Depends_def respond_def
      backend_exception_handler_def)

lemma tortoise_update_post_route_absent:
  "\<not> post_exists i db \<Longrightarrow>
   tortoise_update_post_route i u db = (\<lparr>status_code = 404, body = JSON_detail None\<rparr>, db)"
  using tortoise_get_post_or_404_absent [of i db]
  by (simp add: tortoise_update_post_route_def Depends_def respond_def
      tortoise_exception_handler_def)

subsection \<open>What the existence check finds after an insertion\<close>

lemma fresh_post_ident:
  assumes "db_inv db"
  shows "\<forall>r \<in> set (posts_table db). \<not> ident r = posts_sequence db + 1"
    and "\<forall>c \<in> set (comments_table db). \<not> post_id c = posts_sequence db + 1"
  using assms by (fastforce simp: db_inv_def)+

lemma filter_append_fresh:
  "\<forall>x \<in> set xs. \<not> P x \<Longrightarrow> P y \<Longrightarrow> filter P (xs @ [y]) = [y]"
  by (induction xs) auto

lemma fetch_new_post:
  assumes "db_inv db"
    and "ident row = posts_sequence db + 1"
    and "fits_int64 (posts_sequence db + 1)"
    and "db' = db\<lparr>posts_table := posts_table db @ [row],
                   posts_sequence := posts_sequence db + 1\<rparr>"
  shows "backend_get_post_or_404 (ident row) db' = Inr (PostPublic_of (posts_row row) [])"
    and "tortoise_get_post_or_404 (ident row) db'
           = Inr ((PostTortoise_of row)\<lparr>related_comments := Some []\<rparr>)"
proof -
  have no_comments: "filter (\<lambda>c. post_id c = posts_sequence db + 1) (comments_table db) = []"
    using fresh_post_ident(2) [OF assms(1)] by (simp add: filter_empty_conv)
  have "find (\<lambda>r. ident r = posts_sequence db + 1) (posts_table db @ [row]) = Some row"
    by (rule find_append_fresh [OF fresh_post_ident(1) [OF assms(1)]]) (rule assms(2))
  then show "backend_get_post_or_404 (ident row) db' = Inr (PostPublic_of (posts_row row) [])"
    using assms(3)
    by (simp add: backend_get_post_or_404_def fetch_one_def fetch_all_def assms(2,4)
        no_comments)
  have "filter (\<lambda>r. ident r = posts_sequence db + 1) (posts_table db @ [row]) = [row]"
    by (rule filter_append_fresh [OF fresh_post_ident(1) [OF assms(1)]]) (rule assms(2))
  then show "tortoise_get_post_or_404 (ident row) db'
           = Inr ((PostTortoise_of row)\<lparr>related_comments := Some []\<rparr>)"
    by (simp add: tortoise_get_post_or_404_def PostTortoise_get_def prefetch_related_def
        assms(2,4) no_comments)
qed

subsection \<open>Paths that start with a slash\<close>

lemma backend_get_posts_template: "match_path ''posts/{id}'' (CHR ''/'' # path) = None"
  by (simp add: match_path_def is_param_def)

lemma backend_get_posts_unreachable:
  "find_route backend_routes m (CHR ''/'' # path) \<noteq> Some (''get_posts'', params)"
  by (simp add: backend_routes_def backend_get_posts_template split: option.splits)

subsection \<open>Every route preserves the invariant\<close>

lemma snd_respond: "snd (respond handler status response_model r) = snd r"
  by (cases r) (auto simp: respond_def split: sum.splits)

lemma snd_Depends:
  "snd (Depends dependency handler i db)
     = (case dependency i db of Inl e \<Rightarrow> db | Inr post \<Rightarrow> snd (handler post db))"
  by (simp add: Depends_def split: sum.splits)

lemma snd_backend_create_comment:
  "snd (backend_create_comment comment db) = db
   \<or> (post_exists (post_id comment) db
      \<and> (\<exists>i. comments_insert comment db = Inr (i, snd (backend_create_comment comment db))))"
  using find_None_post_exists [of "post_id comment" db]
  by (auto simp: backend_create_comment_def fetch_one_def
      split: sum.splits option.splits prod.splits if_splits)

lemma snd_tortoise_create_comment:
  "snd (tortoise_create_comment comment db) = db
   \<or> (post_exists (post_id comment) db
      \<and> (\<exists>i. insert_comment
                \<lparr>post_id = post_id comment,
                  comment_publication_date = to_python_value (comment_publication_date comment),
                  comment_content = comment_content comment\<rparr> db
              = Inr (i, snd (tortoise_create_comment comment db))))"
proof (cases "post_exists (post_id comment) db")
  case False
  then show ?thesis
    by (simp add: tortoise_create_comment_absent)
next
  case True
  then show ?thesis
    by (auto simp: tortoise_create_comment_def CommentTortoise_create_def Let_def
        split: sum.splits exn.splits prod.splits)
qed

lemma db_inv_backend_routes:
  assumes "db_inv db"
  shows "db_inv (snd (backend_create_post_route post db))"
    and "db_inv (snd (backend_update_post_route no_values i u db))"
    and "db_inv (snd (backend_delete_post_route i db))"
    and "db_inv (snd (backend_create_comment_route comment db))"
proof -
  show "db_inv (snd (backend_create_post_route post db))"
    using assms db_inv_insert_post [OF assms]
    by (auto simp: backend_create_post_route_def snd_respond backend_create_post_def
        posts_insert_def split: sum.splits prod.splits)
  show "db_inv (snd (backend_update_post_route no_values i u db))"
    using assms db_inv_posts_update [OF assms]
    by (auto simp: backend_update_post_route_def snd_respond snd_Depends
        backend_update_post_def split: sum.splits)
  show "db_inv (snd (backend_delete_post_route i db))"
    using assms db_inv_posts_delete [OF assms]
    by (simp add: backend_delete_post_route_def snd_respond snd_Depends
        backend_delete_post_def split: sum.splits)
  show "db_inv (snd (backend_create_comment_route comment db))"
    using snd_backend_create_comment [of comment db] assms
      db_inv_insert_comment [OF assms, of
        "comment\<lparr>comment_publication_date :=
                    without_tzinfo (comment_publication_date comment)\<rparr>"]
    by (auto simp: backend_create_comment_route_def snd_respond comments_insert_def)
qed

lemma tortoise_inv_insert_post:
  assumes "tortoise_inv db" "length (title vals) \<le> max_length"
    and "utcoffset (publication_date vals) = Some 0" "insert_post vals db = Inr (i, db')"
  shows "tortoise_inv db'"
proof -
  from assms(1) have "db_inv db"
    by (rule tortoise_inv_db_inv)
  from db_inv_insert_post [OF this assms(4)] assms show ?thesis
    by (auto simp: tortoise_inv_def insert_post_def Let_def split: if_splits)
qed

lemma tortoise_inv_insert_comment:
  assumes "tortoise_inv db" "post_exists (post_id vals) db"
    and "utcoffset (comment_publication_date vals) = Some 0"
    and "insert_comment vals db = Inr (i, db')"
  shows "tortoise_inv db'"
proof -
  from assms(1) have "db_inv db"
    by (rule tortoise_inv_db_inv)
  from db_inv_insert_comment [OF this assms(2,4)] assms show ?thesis
    by (auto simp: tortoise_inv_def insert_comment_def Let_def split: if_splits)
qed

lemma tortoise_inv_save:
  assumes "tortoise_inv db" "utcoffset (publication_date post) = Some 0"
    and "save post db = Inr db'"
  shows "tortoise_inv db'"
proof -
  from assms(1) have "db_inv db"
    by (rule tortoise_inv_db_inv)
  from db_inv_save [OF this assms(3)] assms show ?thesis
    by (auto simp: tortoise_inv_def save_def split: if_splits)
qed

lemma tortoise_inv_PostTortoise_delete:
  assumes "tortoise_inv db" "PostTortoise_delete post db = Inr db'"
  shows "tortoise_inv db'"
proof -
  from assms(1) have "db_inv db"
    by (rule tortoise_inv_db_inv)
  from db_inv_PostTortoise_delete [OF this assms(2)] assms show ?thesis
    by (auto simp: tortoise_inv_def PostTortoise_delete_def on_delete_policy_def
        CommentTortoise_post_def)
qed

lemma update_from_dict_utcoffset:
  "update_from_dict post u = Inr post' \<Longrightarrow> publication_date post' = publication_date post"
  by (auto simp: update_from_dict_def Let_def split: if_splits)

lemma tortoise_get_post_or_404_utcoffset:
  "tortoise_get_post_or_404 i db = Inr post \<Longrightarrow> utcoffset (publication_date post) = Some 0"
  by (auto simp: tortoise_get_post_or_404_def PostTortoise_get_def prefetch_related_def
      split: sum.splits exn.splits list.splits)

lemma tortoise_inv_tortoise_routes:
  assumes "tortoise_inv db"
  shows "tortoise_inv (snd (tortoise_get_post_route i db))"
    and "tortoise_inv (snd (tortoise_create_post_route post db))"
    and "tortoise_inv (snd (tortoise_update_post_route i u db))"
    and "tortoise_inv (snd (tortoise_delete_post_route i db))"
    and "tortoise_inv (snd (tortoise_create_comment_route comment db))"
proof -
  show "tortoise_inv (snd (tortoise_get_post_route i db))"
    using assms by (simp add: tortoise_get_post_route_def snd_respond snd_Depends split: sum.splits)
  show "tortoise_inv (snd (tortoise_create_post_route post db))"
    using assms tortoise_inv_insert_post [OF assms, of
        "\<lparr>title = title post, content = content post,
          publication_date = to_python_value (publication_date post)\<rparr>"]
    by (auto simp: tortoise_create_post_route_def snd_respond tortoise_create_post_def
        PostTortoise_create_def Let_def split: sum.splits prod.splits if_splits)
  show "tortoise_inv (snd (tortoise_update_post_route i u db))"
  proof (cases "tortoise_get_post_or_404 i db")
    case (Inl e)
    with assms show ?thesis
      by (simp add: tortoise_update_post_route_def snd_respond snd_Depends)
  next
    case (Inr p)
    show ?thesis
    proof (cases "update_from_dict p u")
      case (Inl e)
      with Inr assms show ?thesis
        by (simp add: tortoise_update_post_route_def snd_respond snd_Depends
            tortoise_update_post_def)
    next
      case p': (Inr p')
      have "utcoffset (publication_date p') = Some 0"
        using update_from_dict_utcoffset [OF p'] tortoise_get_post_or_404_utcoffset [OF Inr]
        by simp
      from tortoise_inv_save [OF assms this] Inr p' assms show ?thesis
        by (auto simp: tortoise_update_post_route_def snd_respond snd_Depends
            tortoise_update_post_def split: sum.splits)
    qed
  qed
  show "tortoise_inv (snd (tortoise_delete_post_route i db))"
    using assms tortoise_inv_PostTortoise_delete [OF assms]
    by (auto simp: tortoise_delete_post_route_def snd_respond snd_Depends
        tortoise_delete_post_def split: sum.splits)
  show "tortoise_inv (snd (tortoise_create_comment_route comment db))"
    using snd_tortoise_create_comment [of comment db] assms
      tortoise_inv_insert_comment [OF assms, of
        "\<lparr>post_id = post_id comment,
          comment_publication_date = to_python_value (comment_publication_date comment),
          comment_content = comment_content comment\<rparr>"]
    by (auto simp: tortoise_create_comment_route_def snd_respond)
qed

text \<open>So the invariants hold in every state that requests lead to.\<close>

lemma backend_reachable_inv: "backend_reachable db \<Longrightarrow> db_inv db"
  by (induction rule: backend_reachable.induct)
    (simp_all add: db_inv_empty db_inv_backend_routes)

lemma tortoise_reachable_inv: "tortoise_reachable db \<Longrightarrow> tortoise_inv db"
  by (induction rule: tortoise_reachable.induct)
    (simp_all add: tortoise_inv_empty tortoise_inv_tortoise_routes)

section \<open>The claims\<close>

subsection \<open>Pagination\<close>

text \<open>
  C3. For all integers \<open>skip \<ge> 0\<close> and \<open>limit \<ge> 0\<close> the pagination helper of either
  application returns exactly \<open>(skip, min 100 limit)\<close>: a limit above 100 gives the
  page size 100, a limit between 0 and 100 is returned unchanged, and skip is never
  capped. The boundary lets such a pair through to the helper.
\<close>

theorem pagination_caps_limit:
  assumes "0 \<le> skip" and "0 \<le> limit"
  shows "backend_pagination skip limit = (skip, min 100 limit)
       \<and> tortoise_pagination skip limit = (skip, min 100 limit)
       \<and> (100 < limit \<longrightarrow> snd (backend_pagination skip limit) = 100
                          \<and> snd (tortoise_pagination skip limit) = 100)
       \<and> (limit \<le> 100 \<longrightarrow> backend_pagination skip limit = (skip, limit)
                          \<and> tortoise_pagination skip limit = (skip, limit))
       \<and> fst (backend_pagination skip limit) = skip
       \<and> fst (tortoise_pagination skip limit) = skip
       \<and> pagination_dependency backend_pagination (Some skip) (Some limit)
             = Inr (skip, min 100 limit)
       \<and> pagination_dependency tortoise_pagination (Some skip) (Some limit)
             = Inr (skip, min 100 limit)"
  using assms
  by (simp add: backend_pagination_def tortoise_pagination_def
      pagination_dependency_def Query_def)

theorem pagination_caps_limit_witness:
  "(0::int) \<le> 7 \<and> (0::int) \<le> 250
   \<and> backend_pagination 7 250 = (7, 100) \<and> tortoise_pagination 7 250 = (7, 100)
   \<and> snd (backend_pagination 7 250) = 100
   \<and> pagination_dependency tortoise_pagination (Some 7) (Some 250) = Inr (7, 100)"
  using pagination_caps_limit [of 7 250]
  by simp

subsection \<open>The existence check\<close>

text \<open>
  C4, as amended. The existence check of the second application raises the not-found
  exception, which the boundary answers with status 404, exactly when no post has the
  identifier; that of the first application does so for every identifier that is an
  integer of the store (a signed integer of 64 bits), and lets the driver's
  \<^verbatim>\<open>OverflowError\<close> through, a server error, for any other. When the post exists, the
  check returns it as the application reads its row, with the comments read for it, and
  each of those comments has that identifier as its \<open>post_id\<close>. (The second
  application returns the one row of that identifier, which the invariant of the stored
  state makes unique.)
\<close>

theorem get_post_or_404_spec:
  "status_code (backend_exception_handler (HTTPException HTTP_404_NOT_FOUND None)) = 404
 \<and> status_code (tortoise_exception_handler (HTTPException HTTP_404_NOT_FOUND None)) = 404
 \<and> (fits_int64 i \<longrightarrow>
       (backend_get_post_or_404 i db = Inl (HTTPException HTTP_404_NOT_FOUND None)
          \<longleftrightarrow> \<not> post_exists i db))
 \<and> (\<not> fits_int64 i \<longrightarrow>
       backend_get_post_or_404 i db = Inl OverflowError
     \<and> status_code (backend_exception_handler OverflowError) = 500)
 \<and> (tortoise_get_post_or_404 i db = Inl (HTTPException HTTP_404_NOT_FOUND None)
       \<longleftrightarrow> \<not> post_exists i db)
 \<and> (post_exists i db \<and> fits_int64 i \<longrightarrow>
       (\<exists>p r. backend_get_post_or_404 i db = Inr p \<and> ident p = i
            \<and> r \<in> set (posts_table db) \<and> PostDB_of p = posts_row r
            \<and> comments p
                = map comments_row (filter (\<lambda>c. post_id c = i) (comments_table db))
            \<and> (\<forall>c \<in> set (comments p). post_id c = i)))
 \<and> (post_exists i db \<and> db_inv db \<longrightarrow>
       fits_int64 i
     \<and> (\<exists>p r cs. tortoise_get_post_or_404 i db = Inr p \<and> ident p = i
            \<and> r \<in> set (posts_table db) \<and> PostDB_of p = entity_row r
            \<and> related_comments p = Some cs
            \<and> cs = map CommentTortoise_of
                      (filter (\<lambda>c. post_id c = i) (comments_table db))
            \<and> (\<forall>c \<in> set cs. post_id c = i)))"
proof (intro conjI impI)
  show "status_code (backend_exception_handler (HTTPException HTTP_404_NOT_FOUND None)) = 404"
    by (simp add: backend_exception_handler_def)
  show "status_code (tortoise_exception_handler (HTTPException HTTP_404_NOT_FOUND None)) = 404"
    by (simp add: tortoise_exception_handler_def)
  show "status_code (backend_exception_handler OverflowError) = 500"
    by (simp add: backend_exception_handler_def)
  show "tortoise_get_post_or_404 i db = Inl (HTTPException HTTP_404_NOT_FOUND None)
          \<longleftrightarrow> \<not> post_exists i db"
    by (rule tortoise_get_post_or_404_absent)
next
  assume "fits_int64 i"
  then show "backend_get_post_or_404 i db = Inl (HTTPException HTTP_404_NOT_FOUND None)
          \<longleftrightarrow> \<not> post_exists i db"
    by (simp add: backend_get_post_or_404_absent)
next
  assume "\<not> fits_int64 i"
  then show "backend_get_post_or_404 i db = Inl OverflowError"
    by (rule backend_get_post_or_404_overflow)
next
  assume "post_exists i db \<and> fits_int64 i"
  then have "fits_int64 i" "post_exists i db"
    by simp_all
  from backend_get_post_or_404_present [OF this]
  show "\<exists>p r. backend_get_post_or_404 i db = Inr p \<and> ident p = i
            \<and> r \<in> set (posts_table db) \<and> PostDB_of p = posts_row r
            \<and> comments p
                = map comments_row (filter (\<lambda>c. post_id c = i) (comments_table db))
            \<and> (\<forall>c \<in> set (comments p). post_id c = i)"
    by auto
next
  assume "post_exists i db \<and> db_inv db"
  then have *: "db_inv db" "post_exists i db"
    by simp_all
  then show "fits_int64 i"
    by (rule post_exists_fits)
  from tortoise_get_post_or_404_present [OF *]
  show "\<exists>p r cs. tortoise_get_post_or_404 i db = Inr p \<and> ident p = i
            \<and> r \<in> set (posts_table db) \<and> PostDB_of p = entity_row r
            \<and> related_comments p = Some cs
            \<and> cs = map CommentTortoise_of
                      (filter (\<lambda>c. post_id c = i) (comments_table db))
            \<and> (\<forall>c \<in> set cs. post_id c = i)"
    by auto
qed

theorem get_post_or_404_spec_witness:
  "post_exists 1 example_db \<and> db_inv example_db \<and> \<not> post_exists 7 example_db
 \<and> fits_int64 1 \<and> fits_int64 7 \<and> \<not> fits_int64 (2 ^ 63)
 \<and> backend_get_post_or_404 7 example_db = Inl (HTTPException HTTP_404_NOT_FOUND None)
 \<and> tortoise_get_post_or_404 7 example_db = Inl (HTTPException HTTP_404_NOT_FOUND None)
 \<and> backend_get_post_or_404 (2 ^ 63) example_db = Inl OverflowError
 \<and> (\<exists>p. backend_get_post_or_404 1 example_db = Inr p \<and> ident p = 1
         \<and> publication_date p = naive 10
         \<and> map comment_ident (comments p) = [1, 3])
 \<and> (\<exists>p cs. tortoise_get_post_or_404 1 example_db = Inr p \<and> ident p = 1
         \<and> publication_date p = utc 10
         \<and> related_comments p = Some cs \<and> map comment_ident cs = [1, 3])"
proof -
  have f: "fits_int64 1" "fits_int64 7" "\<not> fits_int64 (2 ^ 63)"
    by (simp_all add: fits_int64_def)
  note one = get_post_or_404_spec [of 1 example_db]
  note seven = get_post_or_404_spec [of 7 example_db]
  note big = get_post_or_404_spec [of "2 ^ 63" example_db]
  from seven post_exists_example(3)
  have a: "backend_get_post_or_404 7 example_db = Inl (HTTPException HTTP_404_NOT_FOUND None)"
    "tortoise_get_post_or_404 7 example_db = Inl (HTTPException HTTP_404_NOT_FOUND None)"
    by (simp_all add: fits_int64_def)
  from big have b: "backend_get_post_or_404 (2 ^ 63) example_db = Inl OverflowError"
    by (simp add: fits_int64_def)
  from one have "post_exists 1 example_db \<and> fits_int64 1 \<longrightarrow>
       (\<exists>p r. backend_get_post_or_404 1 example_db = Inr p \<and> ident p = 1
            \<and> r \<in> set (posts_table example_db) \<and> PostDB_of p = posts_row r
            \<and> comments p
                = map comments_row (filter (\<lambda>c. post_id c = 1) (comments_table example_db))
            \<and> (\<forall>c \<in> set (comments p). post_id c = 1))"
    by (elim conjE) assumption
  with post_exists_example(1) f(1) obtain p r where
    p: "backend_get_post_or_404 1 example_db = Inr p" "ident p = 1"
      "r \<in> set (posts_table example_db)" "PostDB_of p = posts_row r"
      "comments p = map comments_row (filter (\<lambda>c. post_id c = 1) (comments_table example_db))"
    by blast
  from p(2,4) have "ident r = 1"
    by (metis PostDB_of_sel(1) posts_row_sel(1))
  with p(3) have "r = \<lparr>title = [65], content = [66], publication_date = utc 10, ident = 1\<rparr>"
    by (auto simp: example_db_def)
  with p(4) have pd: "publication_date p = naive 10"
    by (metis PostDB_of_sel(4) posts_row_sel(4) without_tzinfo_utc PostBase.select_convs(3))
  from p(5) have pc: "map comment_ident (comments p) = [1, 3]"
    by (simp add: example_db_def comp_def)
  have c: "\<exists>p. backend_get_post_or_404 1 example_db = Inr p \<and> ident p = 1
         \<and> publication_date p = naive 10 \<and> map comment_ident (comments p) = [1, 3]"
    by (intro exI [of _ p] conjI) (fact p(1,2) pd pc)+
  from one have "post_exists 1 example_db \<and> db_inv example_db \<longrightarrow>
       fits_int64 1
     \<and> (\<exists>p r cs. tortoise_get_post_or_404 1 example_db = Inr p \<and> ident p = 1
            \<and> r \<in> set (posts_table example_db) \<and> PostDB_of p = entity_row r
            \<and> related_comments p = Some cs
            \<and> cs = map CommentTortoise_of
                      (filter (\<lambda>c. post_id c = 1) (comments_table example_db))
            \<and> (\<forall>c \<in> set cs. post_id c = 1))"
    by (elim conjE) assumption
  with db_inv_example post_exists_example(1) obtain q s cs where
    q: "tortoise_get_post_or_404 1 example_db = Inr q" "ident q = 1"
      "s \<in> set (posts_table example_db)" "PostDB_of q = entity_row s"
      "related_comments q = Some cs"
      "cs = map CommentTortoise_of
              (filter (\<lambda>c. post_id c = 1) (comments_table example_db))"
    by blast
  from q(2,4) have "ident s = 1"
    by (metis PostDB_of_sel(1) entity_row_sel(1))
  with q(3) have "s = \<lparr>title = [65], content = [66], publication_date = utc 10, ident = 1\<rparr>"
    by (auto simp: example_db_def)
  with q(4) have qd: "publication_date q = utc 10"
    by (metis PostDB_of_sel(4) entity_row_sel(4) to_python_value_utc PostBase.select_convs(3))
  from q(6) have qc: "map comment_ident cs = [1, 3]"
    by (simp add: example_db_def comp_def)
  have d: "\<exists>p cs. tortoise_get_post_or_404 1 example_db = Inr p \<and> ident p = 1
         \<and> publication_date p = utc 10
         \<and> related_comments p = Some cs \<and> map comment_ident cs = [1, 3]"
    by (intro exI [of _ q] exI [of _ cs] conjI) (fact q(1,2,5) qd qc)+
  show ?thesis
    by (intro conjI) (fact post_exists_example db_inv_example f a b c d)+
qed

text \<open>
  C4, as stated, fails: no post of the example state has the identifier \<open>2\<^sup>6\<^sup>3\<close>,
  and the existence check of the first application does not raise the not-found
  exception for it: the selection raises \<^verbatim>\<open>OverflowError\<close>, which is answered with
  status 500.
\<close>

theorem get_post_or_404_spec_counterexample:
  "\<not> post_exists 9223372036854775808 example_db
 \<and> backend_get_post_or_404 9223372036854775808 example_db = Inl OverflowError
 \<and> backend_get_post_or_404 9223372036854775808 example_db
      \<noteq> Inl (HTTPException HTTP_404_NOT_FOUND None)
 \<and> status_code (backend_exception_handler OverflowError) = 500"
  by (simp add: post_exists_def example_db_def backend_get_post_or_404_def fetch_one_def
      fits_int64_def backend_exception_handler_def)

subsection \<open>Deleting a post: its comments\<close>



subsection \<open>The route of the single-post read\<close>

text \<open>
C7 does not hold of the first application. \<^verbatim>\<open>backend/app.py\<close> registers the
  single-post read under the path \<^verbatim>\<open>posts/{id}\<close>, without the leading slash that its
  other routes and the second application have, and no path of a request (which starts
  with a slash) matches it. So \<^verbatim>\<open>GET /posts/1\<close> finds no route in the first
  application and the route \<^verbatim>\<open>get_post\<close> in the second, while \<^verbatim>\<open>PATCH\<close> and
  \<^verbatim>\<open>DELETE\<close> on the same path are routed in the first.
\<close>

theorem get_post_routes:
  "find_route backend_routes GET ''/posts/1'' = None
 \<and> find_route tortoise_routes GET ''/posts/1'' = Some (''get_post'', [(''id'', ''1'')])
 \<and> find_route backend_routes PATCH ''/posts/1'' = Some (''update_post'', [(''id'', ''1'')])
 \<and> find_route backend_routes DELETE ''/posts/1'' = Some (''delete_post'', [(''id'', ''1'')])"
  by (simp add: backend_routes_def tortoise_routes_def match_path_def is_param_def
      param_name_def)

end
